theory Spec2Isabelle
  imports Complex_Main
begin

section \<open>Settings model (App.tsx)\<close>

text \<open>
  JavaScript numbers are modelled as exact reals: the rounding of floating-point
  arithmetic is not modelled. The sliders of the editor deliver integers
  (\<open>step={1}\<close>). \<open>Math.round x\<close> is \<open>\<lfloor>x + 1/2\<rfloor>\<close>.
\<close>

datatype gender = Male | Female | NonBinary

record AvatarSettings =
  gender :: gender
  height :: real
  muscle :: real
  bodyFat :: real
  shoulderWidth :: real
  waistSize :: real
  skinTone :: real
  facialStructure :: real
  eyeSize :: real
  noseSize :: real
  mouthSize :: real
  hairStyle :: real
  hairColor :: real

text \<open>\<open>keyof AvatarSettings\<close>.\<close>

datatype settingKey =
  KGender | KHeight | KMuscle | KBodyFat | KShoulderWidth | KWaistSize | KSkinTone
  | KFacialStructure | KEyeSize | KNoseSize | KMouthSize | KHairStyle | KHairColor

text \<open>
  One \<open>key: value\<close> entry of an object literal over the fields of \<open>AvatarSettings\<close>.
  A \<open>Partial<AvatarSettings>\<close> is the list of its entries, in the order of the literal.
\<close>

datatype entry =
  Gender gender | Height real | Muscle real | BodyFat real | ShoulderWidth real
  | WaistSize real | SkinTone real | FacialStructure real | EyeSize real | NoseSize real
  | MouthSize real | HairStyle real | HairColor real

type_synonym PartialSettings = "entry list"

fun keyOf :: "entry \<Rightarrow> settingKey" where
  "keyOf (Gender v) = KGender"
| "keyOf (Height v) = KHeight"
| "keyOf (Muscle v) = KMuscle"
| "keyOf (BodyFat v) = KBodyFat"
| "keyOf (ShoulderWidth v) = KShoulderWidth"
| "keyOf (WaistSize v) = KWaistSize"
| "keyOf (SkinTone v) = KSkinTone"
| "keyOf (FacialStructure v) = KFacialStructure"
| "keyOf (EyeSize v) = KEyeSize"
| "keyOf (NoseSize v) = KNoseSize"
| "keyOf (MouthSize v) = KMouthSize"
| "keyOf (HairStyle v) = KHairStyle"
| "keyOf (HairColor v) = KHairColor"

text \<open>Reading a field: \<open>settings[key]\<close>, returned with its key.\<close>

fun getSetting :: "AvatarSettings \<Rightarrow> settingKey \<Rightarrow> entry" where
  "getSetting s KGender = Gender (gender s)"
| "getSetting s KHeight = Height (height s)"
| "getSetting s KMuscle = Muscle (muscle s)"
| "getSetting s KBodyFat = BodyFat (bodyFat s)"
| "getSetting s KShoulderWidth = ShoulderWidth (shoulderWidth s)"
| "getSetting s KWaistSize = WaistSize (waistSize s)"
| "getSetting s KSkinTone = SkinTone (skinTone s)"
| "getSetting s KFacialStructure = FacialStructure (facialStructure s)"
| "getSetting s KEyeSize = EyeSize (eyeSize s)"
| "getSetting s KNoseSize = NoseSize (noseSize s)"
| "getSetting s KMouthSize = MouthSize (mouthSize s)"
| "getSetting s KHairStyle = HairStyle (hairStyle s)"
| "getSetting s KHairColor = HairColor (hairColor s)"

text \<open>
  \<^verbatim>\<open>const updateSetting = (key, value) => {
    setAvatarSettings(prev => ({ ...prev, [key]: value })) }\<close>
\<close>

fun updateSetting :: "AvatarSettings \<Rightarrow> entry \<Rightarrow> AvatarSettings" where
  "updateSetting prev (Gender v) = prev\<lparr>gender := v\<rparr>"
| "updateSetting prev (Height v) = prev\<lparr>height := v\<rparr>"
| "updateSetting prev (Muscle v) = prev\<lparr>muscle := v\<rparr>"
| "updateSetting prev (BodyFat v) = prev\<lparr>bodyFat := v\<rparr>"
| "updateSetting prev (ShoulderWidth v) = prev\<lparr>shoulderWidth := v\<rparr>"
| "updateSetting prev (WaistSize v) = prev\<lparr>waistSize := v\<rparr>"
| "updateSetting prev (SkinTone v) = prev\<lparr>skinTone := v\<rparr>"
| "updateSetting prev (FacialStructure v) = prev\<lparr>facialStructure := v\<rparr>"
| "updateSetting prev (EyeSize v) = prev\<lparr>eyeSize := v\<rparr>"
| "updateSetting prev (NoseSize v) = prev\<lparr>noseSize := v\<rparr>"
| "updateSetting prev (MouthSize v) = prev\<lparr>mouthSize := v\<rparr>"
| "updateSetting prev (HairStyle v) = prev\<lparr>hairStyle := v\<rparr>"
| "updateSetting prev (HairColor v) = prev\<lparr>hairColor := v\<rparr>"

text \<open>
  \<^verbatim>\<open>const updateMultipleSettings = (updates) => {
    setAvatarSettings(prev => ({ ...prev, ...updates })) }\<close>
  The spread copies the entries of \<open>updates\<close> over \<open>prev\<close> one after the other.
\<close>

definition updateMultipleSettings :: "AvatarSettings \<Rightarrow> PartialSettings \<Rightarrow> AvatarSettings" where
  "updateMultipleSettings prev updates = foldl updateSetting prev updates"

text \<open>The part of the application state that \<open>applyPreset\<close> writes.\<close>

record AppState =
  avatarSettings :: AvatarSettings
  activePreset :: "string option"
  toasts :: "string list"

text \<open>
  \<^verbatim>\<open>const applyPreset = (presetSettings) => {
    setAvatarSettings(prev => ({ ...prev, ...presetSettings }))
    setActivePreset('applied')
    toast.success('Preset applied!') }\<close>
\<close>

definition applyPreset :: "AppState \<Rightarrow> PartialSettings \<Rightarrow> AppState" where
  "applyPreset st presetSettings =
     st\<lparr>avatarSettings := foldl updateSetting (avatarSettings st) presetSettings,
        activePreset := Some ''applied'',
        toasts := toasts st @ [''Preset applied!'']\<rparr>"

text \<open>The initial value of the \<open>avatarSettings\<close> state.\<close>

definition defaultSettings :: AvatarSettings where
  "defaultSettings =
     \<lparr>gender = Male, height = 180, muscle = 50, bodyFat = 20, shoulderWidth = 50,
      waistSize = 50, skinTone = 50, facialStructure = 50, eyeSize = 50, noseSize = 50,
      mouthSize = 50, hairStyle = 1, hairColor = 50\<rparr>"

text \<open>
  The declared ranges: the \<open>min\<close> and \<open>max\<close> of each slider of the editor, the four
  hair-style buttons, and the ranges of the data model for the fields without a slider.
\<close>

fun entryInRange :: "entry \<Rightarrow> bool" where
  "entryInRange (Gender v) = True"
| "entryInRange (Height v) = (170 \<le> v \<and> v \<le> 210)"
| "entryInRange (Muscle v) = (0 \<le> v \<and> v \<le> 100)"
| "entryInRange (BodyFat v) = (5 \<le> v \<and> v \<le> 40)"
| "entryInRange (ShoulderWidth v) = (0 \<le> v \<and> v \<le> 100)"
| "entryInRange (WaistSize v) = (0 \<le> v \<and> v \<le> 100)"
| "entryInRange (SkinTone v) = (0 \<le> v \<and> v \<le> 100)"
| "entryInRange (FacialStructure v) = (0 \<le> v \<and> v \<le> 100)"
| "entryInRange (EyeSize v) = (0 \<le> v \<and> v \<le> 100)"
| "entryInRange (NoseSize v) = (0 \<le> v \<and> v \<le> 100)"
| "entryInRange (MouthSize v) = (0 \<le> v \<and> v \<le> 100)"
| "entryInRange (HairStyle v) = (v = 1 \<or> v = 2 \<or> v = 3 \<or> v = 4)"
| "entryInRange (HairColor v) = (0 \<le> v \<and> v \<le> 100)"

definition inRange :: "AvatarSettings \<Rightarrow> bool" where
  "inRange s \<longleftrightarrow>
     170 \<le> height s \<and> height s \<le> 210 \<and>
     0 \<le> muscle s \<and> muscle s \<le> 100 \<and>
     5 \<le> bodyFat s \<and> bodyFat s \<le> 40 \<and>
     0 \<le> shoulderWidth s \<and> shoulderWidth s \<le> 100 \<and>
     0 \<le> waistSize s \<and> waistSize s \<le> 100 \<and>
     0 \<le> skinTone s \<and> skinTone s \<le> 100 \<and>
     0 \<le> facialStructure s \<and> facialStructure s \<le> 100 \<and>
     0 \<le> eyeSize s \<and> eyeSize s \<le> 100 \<and>
     0 \<le> noseSize s \<and> noseSize s \<le> 100 \<and>
     0 \<le> mouthSize s \<and> mouthSize s \<le> 100 \<and>
     0 \<le> hairColor s \<and> hairColor s \<le> 100 \<and>
     (hairStyle s = 1 \<or> hairStyle s = 2 \<or> hairStyle s = 3 \<or> hairStyle s = 4)"

subsection \<open>Preset catalogue (AvatarPresets.tsx, BodyPresets.tsx)\<close>

definition presets_female_athletic :: PartialSettings where
  "presets_female_athletic =
     [Gender Female, Height 170, Muscle 65, BodyFat 18, ShoulderWidth 45, WaistSize 35,
      SkinTone 50, FacialStructure 45, EyeSize 55, NoseSize 45, MouthSize 50,
      HairStyle 2, HairColor 30]"

definition presets_female_curvy :: PartialSettings where
  "presets_female_curvy =
     [Gender Female, Height 165, Muscle 40, BodyFat 25, ShoulderWidth 40, WaistSize 45,
      SkinTone 60, FacialStructure 50, EyeSize 60, NoseSize 40, MouthSize 55,
      HairStyle 3, HairColor 70]"

definition presets_female_muscular :: PartialSettings where
  "presets_female_muscular =
     [Gender Female, Height 175, Muscle 80, BodyFat 15, ShoulderWidth 55, WaistSize 30,
      SkinTone 40, FacialStructure 55, EyeSize 50, NoseSize 50, MouthSize 45,
      HairStyle 1, HairColor 20]"

definition presets_male_athletic :: PartialSettings where
  "presets_male_athletic =
     [Gender Male, Height 180, Muscle 70, BodyFat 12, ShoulderWidth 65, WaistSize 40,
      SkinTone 45, FacialStructure 60, EyeSize 45, NoseSize 55, MouthSize 50,
      HairStyle 1, HairColor 25]"

definition presets_male_bulky :: PartialSettings where
  "presets_male_bulky =
     [Gender Male, Height 190, Muscle 85, BodyFat 18, ShoulderWidth 75, WaistSize 50,
      SkinTone 35, FacialStructure 70, EyeSize 40, NoseSize 60, MouthSize 45,
      HairStyle 2, HairColor 15]"

definition presets_male_lean :: PartialSettings where
  "presets_male_lean =
     [Gender Male, Height 175, Muscle 55, BodyFat 8, ShoulderWidth 55, WaistSize 35,
      SkinTone 55, FacialStructure 50, EyeSize 50, NoseSize 45, MouthSize 50,
      HairStyle 3, HairColor 60]"

text \<open>The \<open>petite-female\<close> entry of \<open>bodyPresets\<close>; its \<open>settings\<close> carry no gender.\<close>

definition bodyPresets_petite_female :: PartialSettings where
  "bodyPresets_petite_female =
     [Height 155, Muscle 30, BodyFat 20, ShoulderWidth 35, WaistSize 35, SkinTone 65,
      FacialStructure 40, EyeSize 70, NoseSize 40, MouthSize 50, HairStyle 3, HairColor 80]"

subsection \<open>ML suggestions (AvatarML.tsx)\<close>

definition jsRound :: "real \<Rightarrow> real" where
  "jsRound x = real_of_int \<lfloor>x + 1 / 2\<rfloor>"

record MLAnalysisResult =
  ml_eyeSize :: real
  ml_noseSize :: real
  ml_mouthSize :: real
  ml_facialStructure :: real
  jawWidth :: real
  cheekbones :: real
  estimatedHeight :: real
  bodyType :: int
  musclePotential :: real
  ml_skinTone :: real
  undertones :: int
  confidence :: real

text \<open>
  The simulated analysis result of \<open>analyzePhoto\<close>. \<open>rnd i\<close> is the value of the
  \<open>i\<close>-th call of \<open>Math.random()\<close>, a number in \<open>[0, 1)\<close>; \<open>bodyType\<close> and
  \<open>undertones\<close> are the indices into their three-element arrays.
\<close>

definition analyzePhoto :: "(nat \<Rightarrow> real) \<Rightarrow> MLAnalysisResult" where
  "analyzePhoto rnd =
     \<lparr>ml_eyeSize = rnd 0 * 40 + 30,
      ml_noseSize = rnd 1 * 40 + 30,
      ml_mouthSize = rnd 2 * 40 + 30,
      ml_facialStructure = rnd 3 * 60 + 20,
      jawWidth = rnd 4 * 50 + 25,
      cheekbones = rnd 5 * 50 + 25,
      estimatedHeight = rnd 6 * 30 + 165,
      bodyType = \<lfloor>rnd 7 * 3\<rfloor>,
      musclePotential = rnd 8 * 60 + 20,
      ml_skinTone = rnd 9 * 80 + 10,
      undertones = \<lfloor>rnd 10 * 3\<rfloor>,
      confidence = rnd 11 * 20 + 80\<rparr>"

text \<open>
  \<open>applyMLResults\<close>: nothing happens without results; otherwise the update object
  handed to \<open>onSettingsUpdate\<close>, which the application binds to
  \<open>updateMultipleSettings\<close>.
\<close>

fun applyMLResults :: "MLAnalysisResult option \<Rightarrow> PartialSettings option" where
  "applyMLResults None = None"
| "applyMLResults (Some mlResults) =
     Some [EyeSize (jsRound (ml_eyeSize mlResults)),
           NoseSize (jsRound (ml_noseSize mlResults)),
           MouthSize (jsRound (ml_mouthSize mlResults)),
           FacialStructure (jsRound (ml_facialStructure mlResults)),
           Height (jsRound (estimatedHeight mlResults)),
           SkinTone (jsRound (ml_skinTone mlResults)),
           Muscle (jsRound (musclePotential mlResults))]"


section \<open>Parametric avatar mesh (Avatar3D.tsx)\<close>

type_synonym vec3 = "real \<times> real \<times> real"

record LightingSettings =
  ambientIntensity :: real
  directionalIntensity :: real
  directionalPosition :: vec3
  environmentIntensity :: real
  shadows :: bool

text \<open>The initial value of the \<open>lightingSettings\<close> state of the application.\<close>

definition defaultLighting :: LightingSettings where
  "defaultLighting =
     \<lparr>ambientIntensity = 0.5, directionalIntensity = 1.0, directionalPosition = (2, 4, 2),
      environmentIntensity = 0.8, shadows = True\<rparr>"

text \<open>
  The geometry elements with their \<open>args\<close>:
  \<open>sphereGeometry [radius, widthSegments, heightSegments]\<close>, also with the four
  further arguments \<open>phiStart, phiLength, thetaStart, thetaLength\<close>;
  \<open>boxGeometry [width, height, depth]\<close>;
  \<open>cylinderGeometry [radiusTop, radiusBottom, height, radialSegments]\<close>;
  \<open>coneGeometry [radius, height, radialSegments]\<close>;
  \<open>capsuleGeometry [radius, length, capSegments, radialSegments]\<close>.
  For two spheres \<open>RealisticAvatarMesh\<close> writes the \<open>args\<close> as a bracketed triple of
  radii followed by further numbers, \<open>args={[rx, ry, rz], 16, 16}\<close>;
  \<open>SphereGeometryRadii\<close> keeps them as they are written, the triple and the list of the
  numbers after it.
\<close>

datatype geometry =
  SphereGeometry real nat nat
  | BoxGeometry real real real
  | CylinderGeometry real real real nat
  | SphereGeometryPartial real nat nat real real real real
  | SphereGeometryRadii "real \<times> real \<times> real" "real list"
  | ConeGeometry real real nat
  | CapsuleGeometry real real nat nat

text \<open>
  Colours are kept as the expressions of the scene-graph library that build them:
  \<open>new THREE.Color().setHSL(h, s, l)\<close>, a CSS colour string, and
  \<open>c.clone().multiplyScalar(k)\<close>, which multiplies each channel of \<open>c\<close> by \<open>k\<close>.
\<close>

datatype color =
  SetHSL real real real
  | ColorString string
  | MultiplyScalar color real

text \<open>
  A \<open><mesh>\<close> element with its geometry and its \<open>meshStandardMaterial\<close>. A property
  that the element does not give is \<open>None\<close> (the library default applies).
\<close>

record mesh =
  position :: vec3
  rotation :: "vec3 option"
  castShadow :: bool
  receiveShadow :: bool
  geometry :: geometry
  color :: color
  roughness :: "real option"
  metalness :: "real option"

text \<open>
  A \<open><Text>\<close> element whose content is \<open>{number.toFixed(fractionDigits)}suffix\<close>. The
  number and the count of digits are kept; the conversion of the number to its decimal
  digits is the platform's.
\<close>

record textNode =
  text_position :: vec3
  fontSize :: real
  text_color :: color
  anchorX :: string
  anchorY :: string
  text_number :: real
  text_fractionDigits :: nat
  text_suffix :: string

text \<open>The \<open><group>\<close> that \<open>AvatarMesh\<close> returns.\<close>

record scene =
  groupScale :: vec3
  groupRotationY :: real
  shapes :: "mesh list"
  heightIndicator :: textNode

subsection \<open>Natural numbers as decimal strings\<close>

definition digit :: "nat \<Rightarrow> char" where
  "digit n = ''0123456789'' ! n"

fun showNat :: "nat \<Rightarrow> string" where
  "showNat n = (if n < 10 then [digit n] else showNat (n div 10) @ [digit (n mod 10)])"

subsection \<open>Body proportions and colours\<close>

definition heightScale :: "AvatarSettings \<Rightarrow> real" where
  "heightScale settings = height settings / 180"

definition muscleScale :: "AvatarSettings \<Rightarrow> real" where
  "muscleScale settings = 1 + (muscle settings - 50) * 0.004"

definition bodyFatScale :: "AvatarSettings \<Rightarrow> real" where
  "bodyFatScale settings = 1 + (bodyFat settings - 20) * 0.003"

definition shoulderScale :: "AvatarSettings \<Rightarrow> real" where
  "shoulderScale settings = 1 + (shoulderWidth settings - 50) * 0.003"

definition waistScale :: "AvatarSettings \<Rightarrow> real" where
  "waistScale settings = 1 + (waistSize settings - 50) * 0.002"

definition skinHue :: "AvatarSettings \<Rightarrow> real" where
  "skinHue settings = (skinTone settings / 100) * 0.15"

definition skinSaturation :: "AvatarSettings \<Rightarrow> real" where
  "skinSaturation settings = 0.3 + (skinTone settings / 100) * 0.4"

definition skinLightness :: "AvatarSettings \<Rightarrow> real" where
  "skinLightness settings = 0.4 + (skinTone settings / 100) * 0.4"

definition skinColor :: "AvatarSettings \<Rightarrow> color" where
  "skinColor settings =
     SetHSL (skinHue settings) (skinSaturation settings) (skinLightness settings)"

definition hairHue :: "AvatarSettings \<Rightarrow> real" where
  "hairHue settings = (hairColor settings / 100) * 0.8"

text \<open>The local constant \<open>hairColor\<close> of \<open>AvatarMesh\<close> (the settings field has the name).\<close>

definition hairColor_c :: "AvatarSettings \<Rightarrow> color" where
  "hairColor_c settings = SetHSL (hairHue settings) 0.8 0.3"

text \<open>
  The table of gender-specific proportions of \<open>AvatarMesh\<close>. Each row is an object
  literal, kept as its list of properties. \<open>getProp obj k\<close> is the property access
  \<open>obj.k\<close>; the builders use it only with names that every row of their table defines
  (lemmas \<open>genderMultipliers_keys\<close> and \<open>genderMultipliers_R_keys\<close>), so the access
  to a missing property, \<open>undefined\<close> in the source, does not occur.
\<close>

fun genderMultipliers :: "gender \<Rightarrow> (string \<times> real) list" where
  "genderMultipliers Male =
     [(''shoulderBonus'', 1.2), (''waistReduction'', 0.9), (''muscle'', 1.1)]"
| "genderMultipliers Female =
     [(''shoulderBonus'', 0.9), (''waistReduction'', 0.8), (''muscle'', 0.8)]"
| "genderMultipliers NonBinary =
     [(''shoulderBonus'', 1.0), (''waistReduction'', 0.85), (''muscle'', 0.95)]"

definition getProp :: "(string \<times> real) list \<Rightarrow> string \<Rightarrow> real" where
  "getProp obj k = the (map_of obj k)"

definition genderMods :: "AvatarSettings \<Rightarrow> (string \<times> real) list" where
  "genderMods settings = genderMultipliers (gender settings)"

subsection \<open>The shapes, in the order of the returned group\<close>

definition headPart :: "AvatarSettings \<Rightarrow> mesh list" where
  "headPart settings =
     [\<lparr>position = (0, 1.6, 0), rotation = None, castShadow = True, receiveShadow = True,
       geometry = SphereGeometry (0.12 * (1 + facialStructure settings * 0.001)) 16 16,
       color = skinColor settings, roughness = Some 0.8, metalness = Some 0.1\<rparr>]"

definition eyesPart :: "AvatarSettings \<Rightarrow> mesh list" where
  "eyesPart settings =
     [\<lparr>position = (- 0.04, 1.63, 0.08), rotation = None, castShadow = True,
       receiveShadow = False,
       geometry = SphereGeometry (0.01 * (1 + eyeSize settings * 0.001)) 8 8,
       color = ColorString ''#000033'', roughness = None, metalness = None\<rparr>,
      \<lparr>position = (0.04, 1.63, 0.08), rotation = None, castShadow = True,
       receiveShadow = False,
       geometry = SphereGeometry (0.01 * (1 + eyeSize settings * 0.001)) 8 8,
       color = ColorString ''#000033'', roughness = None, metalness = None\<rparr>]"

definition nosePart :: "AvatarSettings \<Rightarrow> mesh list" where
  "nosePart settings =
     [\<lparr>position = (0, 1.58, 0.09), rotation = None, castShadow = True, receiveShadow = False,
       geometry = BoxGeometry (0.02 * (1 + noseSize settings * 0.001)) 0.04 0.02,
       color = skinColor settings, roughness = Some 0.8, metalness = None\<rparr>]"

definition mouthPart :: "AvatarSettings \<Rightarrow> mesh list" where
  "mouthPart settings =
     [\<lparr>position = (0, 1.54, 0.08), rotation = None, castShadow = True, receiveShadow = False,
       geometry = BoxGeometry (0.06 * (1 + mouthSize settings * 0.001)) 0.01 0.01,
       color = ColorString ''#8B2635'', roughness = None, metalness = None\<rparr>]"

definition hairPart :: "AvatarSettings \<Rightarrow> mesh list" where
  "hairPart settings =
     (if hairStyle settings = 1 then
        [\<lparr>position = (0, 1.7, 0), rotation = None, castShadow = True, receiveShadow = False,
          geometry = SphereGeometry 0.13 16 16,
          color = hairColor_c settings, roughness = Some 0.9, metalness = None\<rparr>]
      else [])
     @ (if hairStyle settings = 2 then
        [\<lparr>position = (0, 1.7, - 0.02), rotation = None, castShadow = True,
          receiveShadow = False,
          geometry = BoxGeometry 0.22 0.15 0.2,
          color = hairColor_c settings, roughness = Some 0.9, metalness = None\<rparr>]
      else [])
     @ (if hairStyle settings = 3 then
        [\<lparr>position = (0, 1.75, 0), rotation = None, castShadow = True, receiveShadow = False,
          geometry = CylinderGeometry 0.1 0.14 0.2 12,
          color = hairColor_c settings, roughness = Some 0.9, metalness = None\<rparr>]
      else [])
     @ (if hairStyle settings = 4 then
        [\<lparr>position = (0, 1.68, 0), rotation = None, castShadow = True, receiveShadow = False,
          geometry = SphereGeometry 0.14 8 8,
          color = hairColor_c settings, roughness = Some 0.95, metalness = None\<rparr>]
      else [])"

definition neckPart :: "AvatarSettings \<Rightarrow> mesh list" where
  "neckPart settings =
     [\<lparr>position = (0, 1.45, 0), rotation = None, castShadow = True, receiveShadow = True,
       geometry = CylinderGeometry 0.06 0.08 0.15 12,
       color = skinColor settings, roughness = Some 0.8, metalness = Some 0.1\<rparr>]"

definition torsoPart :: "AvatarSettings \<Rightarrow> mesh list" where
  "torsoPart settings =
     [\<lparr>position = (0, 1.1, 0), rotation = None, castShadow = True, receiveShadow = True,
       geometry = BoxGeometry
         (0.35 * shoulderScale settings * muscleScale settings * bodyFatScale settings
            * getProp (genderMods settings) ''shoulderBonus'')
         0.6
         (0.2 * muscleScale settings * bodyFatScale settings),
       color = skinColor settings, roughness = Some 0.7, metalness = Some 0.1\<rparr>]"

definition chestPart :: "AvatarSettings \<Rightarrow> mesh list" where
  "chestPart settings =
     (if muscle settings > 30 then
        [\<lparr>position = (- 0.08, 1.25, 0.08), rotation = None, castShadow = True,
          receiveShadow = False,
          geometry = SphereGeometry
            (0.06 * muscleScale settings * getProp (genderMods settings) ''muscle'') 12 12,
          color = MultiplyScalar (skinColor settings) 0.95,
          roughness = Some 0.6, metalness = None\<rparr>,
         \<lparr>position = (0.08, 1.25, 0.08), rotation = None, castShadow = True,
          receiveShadow = False,
          geometry = SphereGeometry
            (0.06 * muscleScale settings * getProp (genderMods settings) ''muscle'') 12 12,
          color = MultiplyScalar (skinColor settings) 0.95,
          roughness = Some 0.6, metalness = None\<rparr>]
      else [])"

definition absPart :: "AvatarSettings \<Rightarrow> mesh list" where
  "absPart settings =
     (if muscle settings > 40 \<and> bodyFat settings < 25 then
        [\<lparr>position = (0, 1.05, 0.09), rotation = None, castShadow = True,
          receiveShadow = False,
          geometry = BoxGeometry 0.12 0.08 0.02,
          color = MultiplyScalar (skinColor settings) 0.92,
          roughness = Some 0.5, metalness = None\<rparr>,
         \<lparr>position = (0, 0.95, 0.09), rotation = None, castShadow = True,
          receiveShadow = False,
          geometry = BoxGeometry 0.12 0.08 0.02,
          color = MultiplyScalar (skinColor settings) 0.92,
          roughness = Some 0.5, metalness = None\<rparr>]
      else [])"

definition waistPart :: "AvatarSettings \<Rightarrow> mesh list" where
  "waistPart settings =
     [\<lparr>position = (0, 0.75, 0), rotation = None, castShadow = True, receiveShadow = True,
       geometry = CylinderGeometry
         (0.15 * waistScale settings * bodyFatScale settings
            * getProp (genderMods settings) ''waistReduction'')
         (0.18 * bodyFatScale settings)
         0.25
         12,
       color = skinColor settings, roughness = Some 0.7, metalness = Some 0.1\<rparr>]"

definition armsPart :: "AvatarSettings \<Rightarrow> mesh list" where
  "armsPart settings =
     [\<lparr>position = (- 0.25 * shoulderScale settings * getProp (genderMods settings) ''shoulderBonus'',
                   1.2, 0),
       rotation = Some (0, 0, 0.2), castShadow = True, receiveShadow = True,
       geometry = CylinderGeometry (0.05 * muscleScale settings) (0.06 * muscleScale settings)
         0.5 8,
       color = skinColor settings, roughness = Some 0.8, metalness = None\<rparr>,
      \<lparr>position = (0.25 * shoulderScale settings * getProp (genderMods settings) ''shoulderBonus'',
                   1.2, 0),
       rotation = Some (0, 0, - 0.2), castShadow = True, receiveShadow = True,
       geometry = CylinderGeometry (0.05 * muscleScale settings) (0.06 * muscleScale settings)
         0.5 8,
       color = skinColor settings, roughness = Some 0.8, metalness = None\<rparr>]"

definition bicepsPart :: "AvatarSettings \<Rightarrow> mesh list" where
  "bicepsPart settings =
     (if muscle settings > 50 then
        [\<lparr>position = (- 0.25 * shoulderScale settings
                        * getProp (genderMods settings) ''shoulderBonus'', 1.3, 0),
          rotation = None, castShadow = True, receiveShadow = False,
          geometry = SphereGeometry
            (0.04 * muscleScale settings * getProp (genderMods settings) ''muscle'') 8 8,
          color = MultiplyScalar (skinColor settings) 0.94,
          roughness = Some 0.6, metalness = None\<rparr>,
         \<lparr>position = (0.25 * shoulderScale settings
                        * getProp (genderMods settings) ''shoulderBonus'', 1.3, 0),
          rotation = None, castShadow = True, receiveShadow = False,
          geometry = SphereGeometry
            (0.04 * muscleScale settings * getProp (genderMods settings) ''muscle'') 8 8,
          color = MultiplyScalar (skinColor settings) 0.94,
          roughness = Some 0.6, metalness = None\<rparr>]
      else [])"

definition forearmsPart :: "AvatarSettings \<Rightarrow> mesh list" where
  "forearmsPart settings =
     [\<lparr>position = (- 0.32 * shoulderScale settings * getProp (genderMods settings) ''shoulderBonus'',
                   0.85, 0),
       rotation = Some (0, 0, 0.3), castShadow = True, receiveShadow = True,
       geometry = CylinderGeometry (0.04 * muscleScale settings) (0.05 * muscleScale settings)
         0.4 8,
       color = skinColor settings, roughness = Some 0.8, metalness = None\<rparr>,
      \<lparr>position = (0.32 * shoulderScale settings * getProp (genderMods settings) ''shoulderBonus'',
                   0.85, 0),
       rotation = Some (0, 0, - 0.3), castShadow = True, receiveShadow = True,
       geometry = CylinderGeometry (0.04 * muscleScale settings) (0.05 * muscleScale settings)
         0.4 8,
       color = skinColor settings, roughness = Some 0.8, metalness = None\<rparr>]"

definition handsPart :: "AvatarSettings \<Rightarrow> mesh list" where
  "handsPart settings =
     [\<lparr>position = (- 0.36 * shoulderScale settings * getProp (genderMods settings) ''shoulderBonus'',
                   0.6, 0),
       rotation = None, castShadow = True, receiveShadow = True,
       geometry = SphereGeometry 0.04 8 8,
       color = skinColor settings, roughness = Some 0.9, metalness = None\<rparr>,
      \<lparr>position = (0.36 * shoulderScale settings * getProp (genderMods settings) ''shoulderBonus'',
                   0.6, 0),
       rotation = None, castShadow = True, receiveShadow = True,
       geometry = SphereGeometry 0.04 8 8,
       color = skinColor settings, roughness = Some 0.9, metalness = None\<rparr>]"

definition legsPart :: "AvatarSettings \<Rightarrow> mesh list" where
  "legsPart settings =
     [\<lparr>position = (- 0.12, 0.35, 0), rotation = None, castShadow = True, receiveShadow = True,
       geometry = CylinderGeometry (0.08 * muscleScale settings)
         (0.1 * muscleScale settings * bodyFatScale settings) 0.7 8,
       color = skinColor settings, roughness = Some 0.8, metalness = None\<rparr>,
      \<lparr>position = (0.12, 0.35, 0), rotation = None, castShadow = True, receiveShadow = True,
       geometry = CylinderGeometry (0.08 * muscleScale settings)
         (0.1 * muscleScale settings * bodyFatScale settings) 0.7 8,
       color = skinColor settings, roughness = Some 0.8, metalness = None\<rparr>]"

definition quadsPart :: "AvatarSettings \<Rightarrow> mesh list" where
  "quadsPart settings =
     (if muscle settings > 45 then
        [\<lparr>position = (- 0.12, 0.55, 0.06), rotation = None, castShadow = True,
          receiveShadow = False,
          geometry = BoxGeometry (0.08 * muscleScale settings) 0.25 0.04,
          color = MultiplyScalar (skinColor settings) 0.93,
          roughness = Some 0.6, metalness = None\<rparr>,
         \<lparr>position = (0.12, 0.55, 0.06), rotation = None, castShadow = True,
          receiveShadow = False,
          geometry = BoxGeometry (0.08 * muscleScale settings) 0.25 0.04,
          color = MultiplyScalar (skinColor settings) 0.93,
          roughness = Some 0.6, metalness = None\<rparr>]
      else [])"

definition calvesPart :: "AvatarSettings \<Rightarrow> mesh list" where
  "calvesPart settings =
     [\<lparr>position = (- 0.12, - 0.15, - 0.02), rotation = None, castShadow = True,
       receiveShadow = True,
       geometry = CylinderGeometry (0.06 * muscleScale settings) (0.07 * muscleScale settings)
         0.4 8,
       color = skinColor settings, roughness = Some 0.8, metalness = None\<rparr>,
      \<lparr>position = (0.12, - 0.15, - 0.02), rotation = None, castShadow = True,
       receiveShadow = True,
       geometry = CylinderGeometry (0.06 * muscleScale settings) (0.07 * muscleScale settings)
         0.4 8,
       color = skinColor settings, roughness = Some 0.8, metalness = None\<rparr>]"

definition feetPart :: "AvatarSettings \<Rightarrow> mesh list" where
  "feetPart settings =
     [\<lparr>position = (- 0.12, - 0.4, 0.05), rotation = None, castShadow = True,
       receiveShadow = True,
       geometry = BoxGeometry 0.08 0.04 0.2,
       color = skinColor settings, roughness = Some 0.9, metalness = None\<rparr>,
      \<lparr>position = (0.12, - 0.4, 0.05), rotation = None, castShadow = True,
       receiveShadow = True,
       geometry = BoxGeometry 0.08 0.04 0.2,
       color = skinColor settings, roughness = Some 0.9, metalness = None\<rparr>]"

definition heightIndicatorText :: "AvatarSettings \<Rightarrow> textNode" where
  "heightIndicatorText settings =
     \<lparr>text_position = (0.5, 0, 0), fontSize = 0.08, text_color = ColorString ''#60A5FA'',
      anchorX = ''left'', anchorY = ''middle'',
      text_number = height settings / 100, text_fractionDigits = 2,
      text_suffix = ''m''\<rparr>"

text \<open>The \<open><mesh>\<close> children of the returned group, in their order.\<close>

definition groupMeshes :: "AvatarSettings \<Rightarrow> mesh list" where
  "groupMeshes settings =
     headPart settings @ eyesPart settings @ nosePart settings @ mouthPart settings
     @ hairPart settings @ neckPart settings @ torsoPart settings @ chestPart settings
     @ absPart settings @ waistPart settings @ armsPart settings @ bicepsPart settings
     @ forearmsPart settings @ handsPart settings @ legsPart settings
     @ quadsPart settings @ calvesPart settings @ feetPart settings"

text \<open>
  \<open>AvatarMesh\<close>. The component receives the settings and the lighting; its frame
  callback reads the clock, which is the third argument \<open>elapsedTime\<close>, and sets the
  rotation of the group about the y axis from it.
\<close>

definition AvatarMesh :: "AvatarSettings \<Rightarrow> LightingSettings \<Rightarrow> real \<Rightarrow> scene" where
  "AvatarMesh settings lighting elapsedTime =
     \<lparr>groupScale = (heightScale settings, heightScale settings, heightScale settings),
      groupRotationY = sin (elapsedTime * 0.5) * 0.1,
      shapes = groupMeshes settings,
      heightIndicator = heightIndicatorText settings\<rparr>"

text \<open>The shapes of a scene at a position.\<close>

definition shapesAt :: "scene \<Rightarrow> vec3 \<Rightarrow> mesh list" where
  "shapesAt sc p = filter (\<lambda>m. position m = p) (shapes sc)"

subsection \<open>The 2D fallback\<close>

text \<open>A \<open><div>\<close> of the fallback with the pixel values of its style.\<close>

record div2D =
  width_px :: real
  height_px :: real
  top_px :: "real option"
  bottom_px :: "real option"
  left_px :: "real option"
  right_px :: "real option"

record fallback2D =
  container :: div2D
  parts :: "div2D list"

text \<open>The two local constants of \<open>Avatar2DFallback\<close>.\<close>

definition heightScale_2D :: "AvatarSettings \<Rightarrow> real" where
  "heightScale_2D settings = height settings / 180"

definition muscleScale_2D :: "AvatarSettings \<Rightarrow> real" where
  "muscleScale_2D settings = 1 + (muscle settings - 50) * 0.004"

text \<open>The avatar of \<open>Avatar2DFallback\<close>: head, body, two arms, two legs.\<close>

definition Avatar2DFallback :: "AvatarSettings \<Rightarrow> fallback2D" where
  "Avatar2DFallback settings =
     \<lparr>container =
        \<lparr>width_px = 120, height_px = 120 * heightScale_2D settings,
         top_px = None, bottom_px = None, left_px = None, right_px = None\<rparr>,
      parts =
        [\<lparr>width_px = 40, height_px = 40,
          top_px = Some 0, bottom_px = None, left_px = Some 40, right_px = None\<rparr>,
         \<lparr>width_px = 50 + shoulderWidth settings * 0.3,
          height_px = 60 * heightScale_2D settings,
          top_px = Some 35, bottom_px = None,
          left_px = Some (60 - (50 + shoulderWidth settings * 0.3) / 2), right_px = None\<rparr>,
         \<lparr>width_px = 8 + muscleScale_2D settings * 2,
          height_px = 40 * heightScale_2D settings,
          top_px = Some 40, bottom_px = None,
          left_px = Some (25 - muscleScale_2D settings), right_px = None\<rparr>,
         \<lparr>width_px = 8 + muscleScale_2D settings * 2,
          height_px = 40 * heightScale_2D settings,
          top_px = Some 40, bottom_px = None,
          left_px = None, right_px = Some (25 - muscleScale_2D settings)\<rparr>,
         \<lparr>width_px = 15, height_px = 50 * heightScale_2D settings,
          top_px = None, bottom_px = Some 0, left_px = Some 35, right_px = None\<rparr>,
         \<lparr>width_px = 15, height_px = 50 * heightScale_2D settings,
          top_px = None, bottom_px = Some 0, left_px = None, right_px = Some 35\<rparr>]\<rparr>"

section \<open>The mesh of the mounted component (ImprovedAvatar3D.tsx)\<close>

text \<open>
  The application mounts \<open>ImprovedAvatar3D\<close>, whose \<open>RealisticAvatarMesh\<close> builds the
  avatar when no custom model is loaded. It computes the five scale factors, the skin
  colour and the hair colour by the formulas of \<open>AvatarMesh\<close>, so the definitions above
  serve for both; its table of gender-specific proportions and its shapes are its own.
  Its material may carry a \<open>normalScale\<close>, and some of its meshes sit in a nested
  \<open><group>\<close> with a position of its own.
\<close>

record rmesh = mesh +
  normalScale :: "(real \<times> real) option"

datatype node =
  Mesh rmesh
  | Group vec3 "rmesh list"

record realisticScene =
  groupScale_R :: vec3
  groupRotationY_R :: real
  nodes :: "node list"
  heightIndicator_R :: textNode

fun genderMultipliers_R :: "gender \<Rightarrow> (string \<times> real) list" where
  "genderMultipliers_R Male =
     [(''shoulderBonus'', 1.2), (''waistReduction'', 0.9), (''muscle'', 1.1),
      (''hipReduction'', 0.9)]"
| "genderMultipliers_R Female =
     [(''shoulderBonus'', 0.9), (''waistReduction'', 0.7), (''muscle'', 0.8),
      (''hipReduction'', 1.1)]"
| "genderMultipliers_R NonBinary =
     [(''shoulderBonus'', 1.0), (''waistReduction'', 0.8), (''muscle'', 0.95),
      (''hipReduction'', 1.0)]"

definition genderMods_R :: "AvatarSettings \<Rightarrow> (string \<times> real) list" where
  "genderMods_R settings = genderMultipliers_R (gender settings)"

definition headPart_R :: "AvatarSettings \<Rightarrow> node list" where
  "headPart_R settings =
     [Mesh \<lparr>position = (0, 1.6, 0), rotation = None, castShadow = True,
            receiveShadow = True,
            geometry = SphereGeometry (0.11 * (1 + facialStructure settings * 0.002)) 32 32,
            color = skinColor settings, roughness = Some 0.7, metalness = Some 0.05,
            normalScale = Some (0.5, 0.5)\<rparr>]"

definition eyesPart_R :: "AvatarSettings \<Rightarrow> node list" where
  "eyesPart_R settings =
     [Group (0, 1.63, 0.08)
        [\<lparr>position = (- 0.035, 0, 0), rotation = None, castShadow = True,
          receiveShadow = False,
          geometry = SphereGeometry (0.015 * (1 + eyeSize settings * 0.002)) 16 16,
          color = ColorString ''#ffffff'', roughness = None, metalness = None,
          normalScale = None\<rparr>,
         \<lparr>position = (0.035, 0, 0), rotation = None, castShadow = True,
          receiveShadow = False,
          geometry = SphereGeometry (0.015 * (1 + eyeSize settings * 0.002)) 16 16,
          color = ColorString ''#ffffff'', roughness = None, metalness = None,
          normalScale = None\<rparr>,
         \<lparr>position = (- 0.035, 0, 0.01), rotation = None, castShadow = True,
          receiveShadow = False,
          geometry = SphereGeometry 0.008 12 12,
          color = ColorString ''#1a1a2e'', roughness = None, metalness = None,
          normalScale = None\<rparr>,
         \<lparr>position = (0.035, 0, 0.01), rotation = None, castShadow = True,
          receiveShadow = False,
          geometry = SphereGeometry 0.008 12 12,
          color = ColorString ''#1a1a2e'', roughness = None, metalness = None,
          normalScale = None\<rparr>]]"

definition nosePart_R :: "AvatarSettings \<Rightarrow> node list" where
  "nosePart_R settings =
     [Mesh \<lparr>position = (0, 1.58, 0.09), rotation = None, castShadow = True,
            receiveShadow = False,
            geometry = ConeGeometry (0.015 * (1 + noseSize settings * 0.002)) 0.03 8,
            color = MultiplyScalar (skinColor settings) 0.98,
            roughness = Some 0.8, metalness = None,
            normalScale = None\<rparr>]"

definition mouthPart_R :: "AvatarSettings \<Rightarrow> node list" where
  "mouthPart_R settings =
     [Mesh \<lparr>position = (0, 1.54, 0.08), rotation = None, castShadow = True,
            receiveShadow = False,
            geometry = SphereGeometryPartial (0.025 * (1 + mouthSize settings * 0.002)) 16 8
                         0 (pi * 2) 0 (pi * 0.5),
            color = ColorString ''#8B2635'', roughness = Some 0.3, metalness = None,
            normalScale = None\<rparr>]"

definition hairPart_R :: "AvatarSettings \<Rightarrow> node list" where
  "hairPart_R settings =
     (if hairStyle settings = 1 then
        [Mesh \<lparr>position = (0, 1.72, - 0.01), rotation = None, castShadow = True,
            receiveShadow = False,
            geometry = SphereGeometryPartial 0.12 32 32 0 (pi * 2) 0 (pi * 0.8),
            color = hairColor_c settings, roughness = Some 0.9, metalness = None,
            normalScale = None\<rparr>]
      else [])
     @ (if hairStyle settings = 2 then
        [Mesh \<lparr>position = (0, 1.75, - 0.02), rotation = None, castShadow = True,
            receiveShadow = False,
            geometry = CylinderGeometry 0.11 0.13 0.18 16,
            color = hairColor_c settings, roughness = Some 0.9, metalness = None,
            normalScale = None\<rparr>]
      else [])
     @ (if hairStyle settings = 3 then
        [Mesh \<lparr>position = (0, 1.78, 0), rotation = None, castShadow = True,
            receiveShadow = False,
            geometry = SphereGeometryPartial 0.13 16 16 0 (pi * 2) 0 (pi * 0.7),
            color = hairColor_c settings, roughness = Some 0.95, metalness = None,
            normalScale = None\<rparr>]
      else [])
     @ (if hairStyle settings = 4 then
        [Mesh \<lparr>position = (0, 1.7, 0), rotation = None, castShadow = True,
            receiveShadow = False,
            geometry = SphereGeometry 0.14 12 12,
            color = hairColor_c settings, roughness = Some 0.95, metalness = None,
            normalScale = None\<rparr>]
      else [])"

definition neckPart_R :: "AvatarSettings \<Rightarrow> node list" where
  "neckPart_R settings =
     [Mesh \<lparr>position = (0, 1.45, 0), rotation = None, castShadow = True,
            receiveShadow = True,
            geometry = CylinderGeometry 0.055 0.065 0.12 16,
            color = skinColor settings, roughness = Some 0.7, metalness = Some 0.05,
            normalScale = None\<rparr>]"

definition torsoPart_R :: "AvatarSettings \<Rightarrow> node list" where
  "torsoPart_R settings =
     [Mesh \<lparr>position = (0, 1.1, 0), rotation = None, castShadow = True,
            receiveShadow = True,
            geometry = SphereGeometryRadii
              (0.18 * shoulderScale settings * muscleScale settings * bodyFatScale settings
                 * getProp (genderMods_R settings) ''shoulderBonus'',
               0.32,
               0.12 * muscleScale settings * bodyFatScale settings)
              [16, 16, 0, pi * 2, 0, pi],
            color = skinColor settings, roughness = Some 0.6, metalness = Some 0.05,
            normalScale = Some (0.3, 0.3)\<rparr>]"

definition chestPart_R :: "AvatarSettings \<Rightarrow> node list" where
  "chestPart_R settings =
     (if muscle settings > 30 then
        [Mesh \<lparr>position = (- 0.07, 1.25, 0.08), rotation = None, castShadow = True,
            receiveShadow = False,
            geometry = SphereGeometryPartial
              (0.05 * muscleScale settings * getProp (genderMods_R settings) ''muscle'')
              16 16 0 (pi * 2) 0 (pi * 0.6),
            color = MultiplyScalar (skinColor settings) 0.96,
            roughness = Some 0.5, metalness = None,
            normalScale = None\<rparr>,
         Mesh \<lparr>position = (0.07, 1.25, 0.08), rotation = None, castShadow = True,
            receiveShadow = False,
            geometry = SphereGeometryPartial
              (0.05 * muscleScale settings * getProp (genderMods_R settings) ''muscle'')
              16 16 0 (pi * 2) 0 (pi * 0.6),
            color = MultiplyScalar (skinColor settings) 0.96,
            roughness = Some 0.5, metalness = None,
            normalScale = None\<rparr>]
      else [])"

definition absPart_R :: "AvatarSettings \<Rightarrow> node list" where
  "absPart_R settings =
     (if muscle settings > 40 \<and> bodyFat settings < 25 then
        [Group (0, 1.0, 0.09)
           (map (\<lambda>yOffset.
              \<lparr>position = (0, yOffset, 0), rotation = None, castShadow = True,
               receiveShadow = False,
               geometry = SphereGeometryPartial 0.04 12 8 0 (pi * 2) 0 (pi * 0.5),
               color = MultiplyScalar (skinColor settings) 0.94,
               roughness = Some 0.4, metalness = None,
               normalScale = None\<rparr>)
              [0, - 0.08, - 0.16])]
      else [])"

definition waistHipsPart_R :: "AvatarSettings \<Rightarrow> node list" where
  "waistHipsPart_R settings =
     [Mesh \<lparr>position = (0, 0.75, 0), rotation = None, castShadow = True,
            receiveShadow = True,
            geometry = SphereGeometryRadii
              (0.14 * waistScale settings * bodyFatScale settings
                 * getProp (genderMods_R settings) ''waistReduction'',
               0.16 * bodyFatScale settings * getProp (genderMods_R settings) ''hipReduction'',
               0.10 * bodyFatScale settings)
              [16, 16],
            color = skinColor settings, roughness = Some 0.6, metalness = Some 0.05,
            normalScale = None\<rparr>]"

definition upperArmsPart_R :: "AvatarSettings \<Rightarrow> node list" where
  "upperArmsPart_R settings =
     [Mesh \<lparr>position = (- 0.22 * shoulderScale settings
                          * getProp (genderMods_R settings) ''shoulderBonus'', 1.15, 0),
            rotation = Some (0, 0, 0.15), castShadow = True,
            receiveShadow = True,
            geometry = CapsuleGeometry (0.04 * muscleScale settings) 0.25 8 16,
            color = skinColor settings, roughness = Some 0.7, metalness = None,
            normalScale = None\<rparr>,
      Mesh \<lparr>position = (0.22 * shoulderScale settings
                          * getProp (genderMods_R settings) ''shoulderBonus'', 1.15, 0),
            rotation = Some (0, 0, - 0.15), castShadow = True,
            receiveShadow = True,
            geometry = CapsuleGeometry (0.04 * muscleScale settings) 0.25 8 16,
            color = skinColor settings, roughness = Some 0.7, metalness = None,
            normalScale = None\<rparr>]"

definition bicepsPart_R :: "AvatarSettings \<Rightarrow> node list" where
  "bicepsPart_R settings =
     (if muscle settings > 50 then
        [Mesh \<lparr>position = (- 0.22 * shoulderScale settings
                          * getProp (genderMods_R settings) ''shoulderBonus'', 1.25, 0),
            rotation = None, castShadow = True,
            receiveShadow = False,
            geometry = SphereGeometry
              (0.035 * muscleScale settings * getProp (genderMods_R settings) ''muscle'') 12 12,
            color = MultiplyScalar (skinColor settings) 0.95,
            roughness = Some 0.5, metalness = None,
            normalScale = None\<rparr>,
         Mesh \<lparr>position = (0.22 * shoulderScale settings
                          * getProp (genderMods_R settings) ''shoulderBonus'', 1.25, 0),
            rotation = None, castShadow = True,
            receiveShadow = False,
            geometry = SphereGeometry
              (0.035 * muscleScale settings * getProp (genderMods_R settings) ''muscle'') 12 12,
            color = MultiplyScalar (skinColor settings) 0.95,
            roughness = Some 0.5, metalness = None,
            normalScale = None\<rparr>]
      else [])"

definition forearmsPart_R :: "AvatarSettings \<Rightarrow> node list" where
  "forearmsPart_R settings =
     [Mesh \<lparr>position = (- 0.28 * shoulderScale settings
                          * getProp (genderMods_R settings) ''shoulderBonus'', 0.85, 0),
            rotation = Some (0, 0, 0.25), castShadow = True,
            receiveShadow = True,
            geometry = CapsuleGeometry (0.035 * muscleScale settings) 0.22 8 16,
            color = skinColor settings, roughness = Some 0.7, metalness = None,
            normalScale = None\<rparr>,
      Mesh \<lparr>position = (0.28 * shoulderScale settings
                          * getProp (genderMods_R settings) ''shoulderBonus'', 0.85, 0),
            rotation = Some (0, 0, - 0.25), castShadow = True,
            receiveShadow = True,
            geometry = CapsuleGeometry (0.035 * muscleScale settings) 0.22 8 16,
            color = skinColor settings, roughness = Some 0.7, metalness = None,
            normalScale = None\<rparr>]"

definition handsPart_R :: "AvatarSettings \<Rightarrow> node list" where
  "handsPart_R settings =
     [Mesh \<lparr>position = (- 0.32 * shoulderScale settings
                          * getProp (genderMods_R settings) ''shoulderBonus'', 0.65, 0),
            rotation = None, castShadow = True,
            receiveShadow = True,
            geometry = SphereGeometry 0.035 12 12,
            color = skinColor settings, roughness = Some 0.8, metalness = None,
            normalScale = None\<rparr>,
      Mesh \<lparr>position = (0.32 * shoulderScale settings
                          * getProp (genderMods_R settings) ''shoulderBonus'', 0.65, 0),
            rotation = None, castShadow = True,
            receiveShadow = True,
            geometry = SphereGeometry 0.035 12 12,
            color = skinColor settings, roughness = Some 0.8, metalness = None,
            normalScale = None\<rparr>]"

definition thighsPart_R :: "AvatarSettings \<Rightarrow> node list" where
  "thighsPart_R settings =
     [Mesh \<lparr>position = (- 0.11, 0.4, 0), rotation = None, castShadow = True,
            receiveShadow = True,
            geometry = CapsuleGeometry (0.06 * muscleScale settings) 0.35 8 16,
            color = skinColor settings, roughness = Some 0.7, metalness = None,
            normalScale = None\<rparr>,
      Mesh \<lparr>position = (0.11, 0.4, 0), rotation = None, castShadow = True,
            receiveShadow = True,
            geometry = CapsuleGeometry (0.06 * muscleScale settings) 0.35 8 16,
            color = skinColor settings, roughness = Some 0.7, metalness = None,
            normalScale = None\<rparr>]"

definition quadsPart_R :: "AvatarSettings \<Rightarrow> node list" where
  "quadsPart_R settings =
     (if muscle settings > 45 then
        [Mesh \<lparr>position = (- 0.11, 0.5, 0.05), rotation = None, castShadow = True,
            receiveShadow = False,
            geometry = SphereGeometryPartial (0.04 * muscleScale settings) 12 8 0 (pi * 2) 0 (pi * 0.6),
            color = MultiplyScalar (skinColor settings) 0.94,
            roughness = Some 0.5, metalness = None,
            normalScale = None\<rparr>,
         Mesh \<lparr>position = (0.11, 0.5, 0.05), rotation = None, castShadow = True,
            receiveShadow = False,
            geometry = SphereGeometryPartial (0.04 * muscleScale settings) 12 8 0 (pi * 2) 0 (pi * 0.6),
            color = MultiplyScalar (skinColor settings) 0.94,
            roughness = Some 0.5, metalness = None,
            normalScale = None\<rparr>]
      else [])"

definition calvesPart_R :: "AvatarSettings \<Rightarrow> node list" where
  "calvesPart_R settings =
     [Mesh \<lparr>position = (- 0.11, 0.05, - 0.01), rotation = None, castShadow = True,
            receiveShadow = True,
            geometry = CapsuleGeometry (0.045 * muscleScale settings) 0.25 8 16,
            color = skinColor settings, roughness = Some 0.7, metalness = None,
            normalScale = None\<rparr>,
      Mesh \<lparr>position = (0.11, 0.05, - 0.01), rotation = None, castShadow = True,
            receiveShadow = True,
            geometry = CapsuleGeometry (0.045 * muscleScale settings) 0.25 8 16,
            color = skinColor settings, roughness = Some 0.7, metalness = None,
            normalScale = None\<rparr>]"

definition feetPart_R :: "AvatarSettings \<Rightarrow> node list" where
  "feetPart_R settings =
     [Mesh \<lparr>position = (- 0.11, - 0.15, 0.04), rotation = None, castShadow = True,
            receiveShadow = True,
            geometry = SphereGeometryPartial 0.04 12 8 0 (pi * 2) 0 (pi * 0.7),
            color = skinColor settings, roughness = Some 0.8, metalness = None,
            normalScale = None\<rparr>,
      Mesh \<lparr>position = (0.11, - 0.15, 0.04), rotation = None, castShadow = True,
            receiveShadow = True,
            geometry = SphereGeometryPartial 0.04 12 8 0 (pi * 2) 0 (pi * 0.7),
            color = skinColor settings, roughness = Some 0.8, metalness = None,
            normalScale = None\<rparr>]"

definition heightIndicatorText_R :: "AvatarSettings \<Rightarrow> textNode" where
  "heightIndicatorText_R settings =
     \<lparr>text_position = (0.4, 0, 0), fontSize = 0.06, text_color = ColorString ''#60A5FA'',
      anchorX = ''left'', anchorY = ''middle'',
      text_number = height settings / 100, text_fractionDigits = 2,
      text_suffix = ''m''\<rparr>"

text \<open>The children of the group that \<open>RealisticAvatarMesh\<close> returns, in their order.\<close>

definition groupNodes_R :: "AvatarSettings \<Rightarrow> node list" where
  "groupNodes_R settings =
     headPart_R settings @ eyesPart_R settings @ nosePart_R settings @ mouthPart_R settings
     @ hairPart_R settings @ neckPart_R settings @ torsoPart_R settings
     @ chestPart_R settings @ absPart_R settings @ waistHipsPart_R settings
     @ upperArmsPart_R settings @ bicepsPart_R settings @ forearmsPart_R settings
     @ handsPart_R settings @ thighsPart_R settings @ quadsPart_R settings
     @ calvesPart_R settings @ feetPart_R settings"

text \<open>
  \<open>RealisticAvatarMesh\<close>, with the clock that its frame callback reads as the third
  argument, as for \<open>AvatarMesh\<close>.
\<close>

definition RealisticAvatarMesh ::
  "AvatarSettings \<Rightarrow> LightingSettings \<Rightarrow> real \<Rightarrow> realisticScene" where
  "RealisticAvatarMesh settings lighting elapsedTime =
     \<lparr>groupScale_R = (heightScale settings, heightScale settings, heightScale settings),
      groupRotationY_R = sin (elapsedTime * 0.5) * 0.1,
      nodes = groupNodes_R settings,
      heightIndicator_R = heightIndicatorText_R settings\<rparr>"



section \<open>Procedural texture (TextureEnhancer.tsx)\<close>

text \<open>
  The component reads \<open>muscle\<close>, \<open>bodyFat\<close>, \<open>skinTone\<close> and \<open>gender\<close> of the
  settings, and four values of its own state.
\<close>

record TextureTuning =
  textureQuality :: nat
  muscleIntensity :: real
  skinDetail :: real
  vascularization :: real

definition defaultTuning :: TextureTuning where
  "defaultTuning =
     \<lparr>textureQuality = 1024, muscleIntensity = 50, skinDetail = 70, vascularization = 30\<rparr>"

fun hue2rgb :: "real \<Rightarrow> real \<Rightarrow> real \<Rightarrow> real" where
  "hue2rgb p q t =
     (let t = (if t < 0 then t + 1 else t);
          t = (if t > 1 then t - 1 else t)
      in if t < 1 / 6 then p + (q - p) * 6 * t
         else if t < 1 / 2 then q
         else if t < 2 / 3 then p + (q - p) * (2 / 3 - t) * 6
         else p)"

definition hslToRgb :: "real \<Rightarrow> real \<Rightarrow> real \<Rightarrow> real \<times> real \<times> real" where
  "hslToRgb h s l =
     (if s = 0 then (jsRound (l * 255), jsRound (l * 255), jsRound (l * 255))
      else
        let q = (if l < 0.5 then l * (1 + s) else l + s - l * s);
            p = 2 * l - q
        in (jsRound (hue2rgb p q (h + 1 / 3) * 255),
            jsRound (hue2rgb p q h * 255),
            jsRound (hue2rgb p q (h - 1 / 3) * 255)))"

definition skinHue_tex :: "AvatarSettings \<Rightarrow> real" where
  "skinHue_tex settings = (skinTone settings / 100) * 30"

definition skinSat :: "AvatarSettings \<Rightarrow> real" where
  "skinSat settings = 40 + (skinTone settings / 100) * 30"

definition skinLight :: "AvatarSettings \<Rightarrow> real" where
  "skinLight settings = 50 + (skinTone settings / 100) * 30"

text \<open>\<open>noise\<close>, from the value \<open>r\<close> that \<open>Math.random()\<close> returned for the pixel.\<close>

definition noise :: "TextureTuning \<Rightarrow> real \<Rightarrow> real" where
  "noise tuning r = (r - 0.5) * (skinDetail tuning / 100) * 20"

text \<open>
  \<open>muscleDefinition\<close> at the normalised coordinates \<open>(nx, ny)\<close>: the variable starts
  at 0 and the three region tests assign to it one after the other.
\<close>

definition muscleDefinition :: "AvatarSettings \<Rightarrow> TextureTuning \<Rightarrow> real \<Rightarrow> real \<Rightarrow> real" where
  "muscleDefinition settings tuning nx ny =
     (let muscleDefinition = 0 in
      if muscle settings > 30 then
        let muscleDefinition =
              (if ny > 0.3 \<and> ny < 0.6 \<and> \<bar>nx - 0.5\<bar> < 0.2
               then (muscle settings / 100) * (muscleIntensity tuning / 100) * 30
               else muscleDefinition);
            muscleDefinition =
              (if ny > 0.5 \<and> ny < 0.8 \<and> \<bar>nx - 0.5\<bar> < 0.15
               then (muscle settings / 100) * (muscleIntensity tuning / 100) * 25
               else muscleDefinition);
            muscleDefinition =
              (if (nx < 0.2 \<or> nx > 0.8) \<and> ny > 0.2 \<and> ny < 0.7
               then (muscle settings / 100) * (muscleIntensity tuning / 100) * 20
               else muscleDefinition)
        in muscleDefinition
      else muscleDefinition)"

definition vascularDetail :: "AvatarSettings \<Rightarrow> TextureTuning \<Rightarrow> real \<Rightarrow> real \<Rightarrow> real" where
  "vascularDetail settings tuning nx ny =
     (if muscle settings > 60 \<and> bodyFat settings < 15 then
        let veinPattern = sin (nx * 20) * cos (ny * 15) * 0.5 + 0.5
        in if veinPattern > 0.8 then (vascularization tuning / 100) * 15 else 0
      else 0)"

definition fatSoftening :: "AvatarSettings \<Rightarrow> real" where
  "fatSoftening settings = (bodyFat settings / 100) * 10"

record pixel =
  red :: real
  green :: real
  blue :: real
  alpha :: real

text \<open>
  The body of the pixel loop for the pixel number \<open>j = i / 4\<close>: the four values written
  to \<open>data[i]\<close>, ..., \<open>data[i + 3]\<close>.
\<close>

definition texturePixel :: "AvatarSettings \<Rightarrow> TextureTuning \<Rightarrow> real \<Rightarrow> nat \<Rightarrow> pixel" where
  "texturePixel settings tuning r j =
     (let x = j mod textureQuality tuning;
          y = j div textureQuality tuning;
          nx = real x / real (textureQuality tuning);
          ny = real y / real (textureQuality tuning);
          hsl = hslToRgb (skinHue_tex settings / 360) (skinSat settings / 100)
                  (skinLight settings / 100);
          noise = noise tuning r;
          muscleDefinition = muscleDefinition settings tuning nx ny;
          vascularDetail = vascularDetail settings tuning nx ny;
          fatSoftening = fatSoftening settings;
          finalR = max 0 (min 255
                     (fst hsl + noise - muscleDefinition - vascularDetail + fatSoftening));
          finalG = max 0 (min 255
                     (fst (snd hsl) + noise - muscleDefinition - vascularDetail + fatSoftening));
          finalB = max 0 (min 255
                     (snd (snd hsl) + noise - muscleDefinition - vascularDetail + fatSoftening))
      in \<lparr>red = finalR, green = finalG, blue = finalB, alpha = 255\<rparr>)"

text \<open>
  The image data that the loop of \<open>generateEnhancedTexture\<close> fills, pixel by pixel:
  \<open>textureQuality \<times> textureQuality\<close> pixels, \<open>rnd j\<close> being the random number drawn for
  the pixel \<open>j\<close>. What the function then asks of the canvas (storing the data, the two
  highlight gradients for \<open>muscle > 40\<close>, the export as an image) is done by the
  browser and is not part of the loop.
\<close>

definition generateEnhancedTexture ::
  "AvatarSettings \<Rightarrow> TextureTuning \<Rightarrow> (nat \<Rightarrow> real) \<Rightarrow> pixel list" where
  "generateEnhancedTexture settings tuning rnd =
     map (\<lambda>j. texturePixel settings tuning (rnd j) j)
       [0 ..< textureQuality tuning * textureQuality tuning]"

section \<open>GLB upload (GLBUploader.tsx)\<close>

record File =
  file_name :: string
  file_size :: nat

definition MAX_FILE_SIZE :: nat where
  "MAX_FILE_SIZE = 30 * 1024 * 1024"

text \<open>\<open>toLowerCase\<close> on the letters \<open>A\<close> to \<open>Z\<close>; other characters stay.\<close>

definition lowerChar :: "char \<Rightarrow> char" where
  "lowerChar c =
     (case map_of (zip ''ABCDEFGHIJKLMNOPQRSTUVWXYZ'' ''abcdefghijklmnopqrstuvwxyz'') c of
        Some d \<Rightarrow> d
      | None \<Rightarrow> c)"

definition toLowerCase :: "string \<Rightarrow> string" where
  "toLowerCase s = map lowerChar s"

definition endsWith :: "string \<Rightarrow> string \<Rightarrow> bool" where
  "endsWith s suffix \<longleftrightarrow>
     length suffix \<le> length s \<and> drop (length s - length suffix) s = suffix"

text \<open>\<open>validateFile\<close>: the error message, or \<open>None\<close> for \<open>null\<close>.\<close>

definition validateFile :: "File \<Rightarrow> string option" where
  "validateFile file =
     (if \<not> endsWith (toLowerCase (file_name file)) ''.glb''
      then Some ''Only .glb files are supported''
      else if file_size file > MAX_FILE_SIZE
      then Some (''File size must be less than ''
                 @ showNat (MAX_FILE_SIZE div (1024 * 1024)) @ ''MB'')
      else None)"

record UploadedModel =
  model_name :: string
  model_url :: string
  model_size :: nat
  uploadedAt :: string

text \<open>The state of the component; \<open>emptyUploader\<close> below is its initial value.\<close>

record UploaderState =
  isUploading :: bool
  uploadProgress :: real
  dragActive :: bool
  uploadedModels :: "UploadedModel list"
  selectedFile :: "File option"

text \<open>
  \<open>handleFileSelect\<close>: the new state of the component and the message passed to
  \<open>toast.error\<close>, if any.
\<close>

definition handleFileSelect :: "UploaderState \<Rightarrow> File \<Rightarrow> UploaderState \<times> string option" where
  "handleFileSelect st file =
     (case validateFile file of
        Some error \<Rightarrow> (st, Some error)
      | None \<Rightarrow> (st\<lparr>selectedFile := Some file\<rparr>, None))"

text \<open>
  The start of \<open>uploadModel\<close>: without a selected file it returns at once; otherwise
  it marks the upload as running and hands the selected file to the storage service.
\<close>

definition uploadModel_start :: "UploaderState \<Rightarrow> (UploaderState \<times> File) option" where
  "uploadModel_start st =
     (case selectedFile st of
        None \<Rightarrow> None
      | Some file \<Rightarrow> Some (st\<lparr>isUploading := True, uploadProgress := 0\<rparr>, file))"

definition emptyUploader :: UploaderState where
  "emptyUploader =
     \<lparr>isUploading = False, uploadProgress = 0, dragActive = False, uploadedModels = [],
      selectedFile = None\<rparr>"
section \<open>Properties of the settings updates\<close>

lemma getSetting_updateSetting:
  "getSetting (updateSetting s e) k = (if k = keyOf e then e else getSetting s k)"
  by (cases e; cases k; simp)

lemma getSetting_foldl_other:
  "k \<notin> keyOf ` set us \<Longrightarrow> getSetting (foldl updateSetting s us) k = getSetting s k"
  by (induction us arbitrary: s) (simp_all add: getSetting_updateSetting)

lemma getSetting_foldl_last:
  "getSetting (foldl updateSetting s (us @ [e])) (keyOf e) = e"
  by (simp add: getSetting_updateSetting)

lemma getSetting_ext:
  "(\<forall>k. getSetting s k = getSetting s' k) \<Longrightarrow> s = (s' :: AvatarSettings)"
proof -
  assume a: "\<forall>k. getSetting s k = getSetting s' k"
  have "gender s = gender s'" using a [rule_format, of KGender] by simp
  moreover have "height s = height s'" using a [rule_format, of KHeight] by simp
  moreover have "muscle s = muscle s'" using a [rule_format, of KMuscle] by simp
  moreover have "bodyFat s = bodyFat s'" using a [rule_format, of KBodyFat] by simp
  moreover have "shoulderWidth s = shoulderWidth s'"
    using a [rule_format, of KShoulderWidth] by simp
  moreover have "waistSize s = waistSize s'" using a [rule_format, of KWaistSize] by simp
  moreover have "skinTone s = skinTone s'" using a [rule_format, of KSkinTone] by simp
  moreover have "facialStructure s = facialStructure s'"
    using a [rule_format, of KFacialStructure] by simp
  moreover have "eyeSize s = eyeSize s'" using a [rule_format, of KEyeSize] by simp
  moreover have "noseSize s = noseSize s'" using a [rule_format, of KNoseSize] by simp
  moreover have "mouthSize s = mouthSize s'" using a [rule_format, of KMouthSize] by simp
  moreover have "hairStyle s = hairStyle s'" using a [rule_format, of KHairStyle] by simp
  moreover have "hairColor s = hairColor s'" using a [rule_format, of KHairColor] by simp
  ultimately show ?thesis by simp
qed

lemma inRange_iff_entries: "inRange s \<longleftrightarrow> (\<forall>k. entryInRange (getSetting s k))"
proof
  assume "inRange s"
  then show "\<forall>k. entryInRange (getSetting s k)"
    by (auto simp: inRange_def intro: settingKey.induct)
next
  assume a: "\<forall>k. entryInRange (getSetting s k)"
  note b = a [rule_format]
  show "inRange s"
    unfolding inRange_def
    using b [of KHeight] b [of KMuscle] b [of KBodyFat] b [of KShoulderWidth]
      b [of KWaistSize] b [of KSkinTone] b [of KFacialStructure] b [of KEyeSize]
      b [of KNoseSize] b [of KMouthSize] b [of KHairStyle] b [of KHairColor]
    by simp
qed

lemma inRange_updateSetting:
  "inRange s \<Longrightarrow> entryInRange e \<Longrightarrow> inRange (updateSetting s e)"
  by (simp add: inRange_iff_entries getSetting_updateSetting)

lemma inRange_foldl:
  "inRange s \<Longrightarrow> list_all entryInRange us \<Longrightarrow> inRange (foldl updateSetting s us)"
  by (induction us arbitrary: s) (simp_all add: inRange_updateSetting)

lemma inRange_defaultSettings: "inRange defaultSettings"
  by (simp add: inRange_def defaultSettings_def)

lemma petite_preset_height:
  "height (updateMultipleSettings defaultSettings bodyPresets_petite_female) = 155"
  by (simp add: updateMultipleSettings_def bodyPresets_petite_female_def)

lemma jsRound_bounds:
  "real_of_int a \<le> x \<Longrightarrow> x < real_of_int b
   \<Longrightarrow> real_of_int a \<le> jsRound x \<and> jsRound x \<le> real_of_int b"
  unfolding jsRound_def by (simp add: le_floor_iff floor_le_iff)

text \<open>
  The values that the simulated analysis suggests: within the declared ranges for every
  field but the height, which lies between 165 and 195.
\<close>

lemma ml_suggestion_ranges:
  assumes "\<forall>i. 0 \<le> rnd i \<and> rnd i < 1"
    and "applyMLResults (Some (analyzePhoto rnd)) = Some us"
  shows "list_all entryInRange (filter (\<lambda>e. keyOf e \<noteq> KHeight) us)
    \<and> (\<forall>e \<in> set us. \<forall>v. e = Height v \<longrightarrow> 165 \<le> v \<and> v \<le> 195)"
proof -
  have r: "0 \<le> rnd i" "rnd i < 1" for i using assms(1) by auto
  have "30 \<le> jsRound (rnd 0 * 40 + 30) \<and> jsRound (rnd 0 * 40 + 30) \<le> 70"
    using jsRound_bounds [of 30 "rnd 0 * 40 + 30" 70] r [of 0] by simp
  moreover have "30 \<le> jsRound (rnd 1 * 40 + 30) \<and> jsRound (rnd 1 * 40 + 30) \<le> 70"
    using jsRound_bounds [of 30 "rnd 1 * 40 + 30" 70] r [of 1] by simp
  moreover have "30 \<le> jsRound (rnd 2 * 40 + 30) \<and> jsRound (rnd 2 * 40 + 30) \<le> 70"
    using jsRound_bounds [of 30 "rnd 2 * 40 + 30" 70] r [of 2] by simp
  moreover have "20 \<le> jsRound (rnd 3 * 60 + 20) \<and> jsRound (rnd 3 * 60 + 20) \<le> 80"
    using jsRound_bounds [of 20 "rnd 3 * 60 + 20" 80] r [of 3] by simp
  moreover have "165 \<le> jsRound (rnd 6 * 30 + 165) \<and> jsRound (rnd 6 * 30 + 165) \<le> 195"
    using jsRound_bounds [of 165 "rnd 6 * 30 + 165" 195] r [of 6] by simp
  moreover have "10 \<le> jsRound (rnd 9 * 80 + 10) \<and> jsRound (rnd 9 * 80 + 10) \<le> 90"
    using jsRound_bounds [of 10 "rnd 9 * 80 + 10" 90] r [of 9] by simp
  moreover have "20 \<le> jsRound (rnd 8 * 60 + 20) \<and> jsRound (rnd 8 * 60 + 20) \<le> 80"
    using jsRound_bounds [of 20 "rnd 8 * 60 + 20" 80] r [of 8] by simp
  ultimately show ?thesis
    using assms(2) by (auto simp: analyzePhoto_def)
qed

text \<open>
  With every random number equal to 0 the simulated analysis suggests the height 165,
  the lower end of its documented range of 165 to 195 cm.
\<close>

lemma ml_suggestion_height:
  "applyMLResults (Some (analyzePhoto (\<lambda>i. 0)))
     = Some [EyeSize 30, NoseSize 30, MouthSize 30, FacialStructure 20, Height 165,
             SkinTone 10, Muscle 20]"
  by (simp add: analyzePhoto_def jsRound_def)

text \<open>
  C6. A single-field update sets the updated field to the new value and leaves every
  other field equal to its value before the update; a partial multi-field merge leaves
  every field that the update does not name unchanged (and gives a named field the value
  of its last entry). \<open>getSetting\<close> reads any of the thirteen fields, and two
  settings with the same value in each of them are equal (\<open>getSetting_ext\<close>).
\<close>

theorem update_frame:
  "getSetting (updateSetting s e) k = (if k = keyOf e then e else getSetting s k)
   \<and> getSetting (updateMultipleSettings s us) k
       = (case find (\<lambda>e. keyOf e = k) (rev us) of
            Some e \<Rightarrow> e
          | None \<Rightarrow> getSetting s k)"
proof
  show "getSetting (updateSetting s e) k = (if k = keyOf e then e else getSetting s k)"
    by (rule getSetting_updateSetting)
  show "getSetting (updateMultipleSettings s us) k
       = (case find (\<lambda>e. keyOf e = k) (rev us) of
            Some e \<Rightarrow> e
          | None \<Rightarrow> getSetting s k)"
    unfolding updateMultipleSettings_def
    by (induction us rule: rev_induct) (simp_all add: getSetting_updateSetting)
qed

theorem update_frame_witness:
  "getSetting (updateSetting defaultSettings (Height 175)) KHeight = Height 175
   \<and> getSetting (updateSetting defaultSettings (Height 175)) KMuscle = Muscle 50
   \<and> getSetting (updateMultipleSettings defaultSettings [Height 175, EyeSize 60]) KMuscle
       = Muscle 50
   \<and> getSetting (updateMultipleSettings defaultSettings [Height 175, EyeSize 60]) KEyeSize
       = EyeSize 60"
  using update_frame [of defaultSettings "Height 175" KHeight]
    update_frame [of defaultSettings "Height 175" KMuscle "[Height 175, EyeSize 60]"]
    update_frame [of defaultSettings "Height 175" KEyeSize "[Height 175, EyeSize 60]"]
  by (simp add: defaultSettings_def)

text \<open>
  C1 as stated fails: the Curvy Female preset carries the height 165, and applying it to
  the default settings, which are in range, stores that height.
\<close>

theorem curvy_preset_leaves_height_range:
  "inRange defaultSettings
   \<and> height (avatarSettings (applyPreset
        \<lparr>avatarSettings = defaultSettings, activePreset = None, toasts = []\<rparr>
        presets_female_curvy)) = 165
   \<and> \<not> inRange (avatarSettings (applyPreset
        \<lparr>avatarSettings = defaultSettings, activePreset = None, toasts = []\<rparr>
        presets_female_curvy))"
  by (simp add: inRange_def defaultSettings_def applyPreset_def presets_female_curvy_def)

text \<open>
  C1, amended. The update operations store the supplied values as they are. If the
  settings before the update satisfy the declared ranges and every value that the update
  supplies lies within the declared range of its field, then every field of the
  resulting settings lies within its declared range: for the single-field update, for
  the partial multi-field update (which the ML suggestions go through), and for the
  application of a preset.
\<close>

theorem updates_preserve_declared_ranges:
  assumes "inRange (avatarSettings st)"
    and "entryInRange e"
    and "list_all entryInRange us"
  shows "inRange (updateSetting (avatarSettings st) e)
    \<and> inRange (updateMultipleSettings (avatarSettings st) us)
    \<and> inRange (avatarSettings (applyPreset st us))"
  using assms
  by (simp add: inRange_updateSetting inRange_foldl updateMultipleSettings_def applyPreset_def)

theorem updates_preserve_declared_ranges_witness:
  "inRange defaultSettings
   \<and> entryInRange (Height 175)
   \<and> list_all entryInRange presets_male_lean
   \<and> inRange (updateSetting defaultSettings (Height 175))
   \<and> inRange (updateMultipleSettings defaultSettings presets_male_lean)
   \<and> inRange (avatarSettings (applyPreset
        \<lparr>avatarSettings = defaultSettings, activePreset = None, toasts = []\<rparr>
        presets_male_lean))"
proof -
  have a: "inRange (avatarSettings
      \<lparr>avatarSettings = defaultSettings, activePreset = None, toasts = []\<rparr>)"
    by (simp add: inRange_defaultSettings)
  have b: "entryInRange (Height 175)" by simp
  have c: "list_all entryInRange presets_male_lean"
    by (simp add: presets_male_lean_def)
  show ?thesis
    using updates_preserve_declared_ranges [OF a b c] a b c by simp
qed

section \<open>Properties of the avatar mesh\<close>

lemmas part_defs = headPart_def eyesPart_def nosePart_def mouthPart_def hairPart_def
  neckPart_def torsoPart_def chestPart_def absPart_def waistPart_def armsPart_def
  bicepsPart_def forearmsPart_def handsPart_def legsPart_def quadsPart_def calvesPart_def
  feetPart_def

lemmas scale_defs = heightScale_def muscleScale_def bodyFatScale_def shoulderScale_def
  waistScale_def skinHue_def skinSaturation_def skinLightness_def skinColor_def hairHue_def
  hairColor_c_def genderMods_def

lemma shapes_AvatarMesh: "shapes (AvatarMesh s l t) = groupMeshes s"
  by (simp add: AvatarMesh_def)

text \<open>Every row of the table defines the three properties that the builder reads.\<close>

lemma genderMultipliers_keys:
  "map fst (genderMultipliers g) = [''shoulderBonus'', ''waistReduction'', ''muscle'']"
  by (cases g) simp_all

lemma scaled_colors:
  "m \<in> set (groupMeshes s) \<Longrightarrow> color m = MultiplyScalar c k
   \<Longrightarrow> c = skinColor s \<and> 0.92 \<le> k \<and> k \<le> 0.96"
  apply (simp only: groupMeshes_def set_append Un_iff)
  apply (elim disjE)
  apply (auto simp: part_defs skinColor_def hairColor_c_def split: if_splits)
  done

lemma chest_left_shape:
  "shapesAt (AvatarMesh s l t) (- 0.08, 1.25, 0.08)
     = (if muscle s > 30 then [chestPart s ! 0] else [])"
  by (simp add: shapesAt_def shapes_AvatarMesh groupMeshes_def part_defs)

lemma chest_right_shape:
  "shapesAt (AvatarMesh s l t) (0.08, 1.25, 0.08)
     = (if muscle s > 30 then [chestPart s ! 1] else [])"
  by (simp add: shapesAt_def shapes_AvatarMesh groupMeshes_def part_defs)

lemma abs_upper_shape:
  "shapesAt (AvatarMesh s l t) (0, 1.05, 0.09)
     = (if muscle s > 40 \<and> bodyFat s < 25 then [absPart s ! 0] else [])"
  by (simp add: shapesAt_def shapes_AvatarMesh groupMeshes_def part_defs)

lemma abs_lower_shape:
  "shapesAt (AvatarMesh s l t) (0, 0.95, 0.09)
     = (if muscle s > 40 \<and> bodyFat s < 25 then [absPart s ! 1] else [])"
  by (simp add: shapesAt_def shapes_AvatarMesh groupMeshes_def part_defs)

text \<open>
  C3. The two chest-highlight spheres, at \<open>(\<plusminus>0.08, 1.25, 0.08)\<close>, are in the scene
  iff \<open>muscle > 30\<close>; the two ab-definition boxes, at \<open>(0, 1.05, 0.09)\<close> and
  \<open>(0, 0.95, 0.09)\<close>, are in the scene iff \<open>muscle > 40\<close> and \<open>bodyFat < 25\<close>. The
  former carry the skin colour multiplied by 0.95, the latter by 0.92, and every shape
  of the scene with a multiplied colour carries the skin colour multiplied by a factor
  in \<open>[0.92, 0.96]\<close>. This holds for all settings, in range or not.
\<close>

theorem muscle_definition_thresholds:
  "(let sc = AvatarMesh s l t;
        chestL = shapesAt sc (- 0.08, 1.25, 0.08);
        chestR = shapesAt sc (0.08, 1.25, 0.08);
        absU = shapesAt sc (0, 1.05, 0.09);
        absL = shapesAt sc (0, 0.95, 0.09);
        r = 0.06 * muscleScale s * getProp (genderMods s) ''muscle''
    in (if muscle s > 30
        then map geometry chestL = [SphereGeometry r 12 12]
           \<and> map geometry chestR = [SphereGeometry r 12 12]
           \<and> map color chestL = [MultiplyScalar (skinColor s) 0.95]
           \<and> map color chestR = [MultiplyScalar (skinColor s) 0.95]
        else chestL = [] \<and> chestR = [])
     \<and> (if muscle s > 40 \<and> bodyFat s < 25
        then map geometry absU = [BoxGeometry 0.12 0.08 0.02]
           \<and> map geometry absL = [BoxGeometry 0.12 0.08 0.02]
           \<and> map color absU = [MultiplyScalar (skinColor s) 0.92]
           \<and> map color absL = [MultiplyScalar (skinColor s) 0.92]
        else absU = [] \<and> absL = [])
     \<and> (\<forall>m \<in> set (shapes sc). \<forall>c k. color m = MultiplyScalar c k
            \<longrightarrow> c = skinColor s \<and> 0.92 \<le> k \<and> k \<le> 0.96))"
proof -
  have a: "\<forall>m \<in> set (shapes (AvatarMesh s l t)). \<forall>c k. color m = MultiplyScalar c k
            \<longrightarrow> c = skinColor s \<and> 0.92 \<le> k \<and> k \<le> 0.96"
    using scaled_colors [of _ s] by (simp add: shapes_AvatarMesh)
  show ?thesis
    unfolding Let_def chest_left_shape chest_right_shape abs_upper_shape abs_lower_shape
    using a by (simp add: chestPart_def absPart_def)
qed

theorem muscle_definition_thresholds_witness:
  "shapesAt (AvatarMesh (defaultSettings\<lparr>muscle := 30\<rparr>) defaultLighting 0)
       (- 0.08, 1.25, 0.08) = []
   \<and> map color (shapesAt (AvatarMesh (defaultSettings\<lparr>muscle := 31\<rparr>) defaultLighting 0)
       (- 0.08, 1.25, 0.08))
       = [MultiplyScalar (skinColor (defaultSettings\<lparr>muscle := 31\<rparr>)) 0.95]
   \<and> map color (shapesAt (AvatarMesh defaultSettings defaultLighting 0) (0, 1.05, 0.09))
       = [MultiplyScalar (skinColor defaultSettings) 0.92]
   \<and> shapesAt (AvatarMesh (defaultSettings\<lparr>bodyFat := 25\<rparr>) defaultLighting 0)
       (0, 1.05, 0.09) = []"
  using muscle_definition_thresholds [of "defaultSettings\<lparr>muscle := 30\<rparr>" defaultLighting 0]
    muscle_definition_thresholds [of "defaultSettings\<lparr>muscle := 31\<rparr>" defaultLighting 0]
    muscle_definition_thresholds [of defaultSettings defaultLighting 0]
    muscle_definition_thresholds [of "defaultSettings\<lparr>bodyFat := 25\<rparr>" defaultLighting 0]
  by (simp add: Let_def defaultSettings_def)

text \<open>
  C4 as stated fails in its second half: the frame callback of the builder sets the
  rotation of the group about the y axis from the clock of the renderer, so the same
  settings give the rotation 0 at the time 0 and the rotation 0.1 at the time \<open>\<pi>\<close>, and
  the two scenes differ.
\<close>

theorem group_rotation_follows_clock:
  "groupRotationY (AvatarMesh defaultSettings defaultLighting 0) = 0
   \<and> groupRotationY (AvatarMesh defaultSettings defaultLighting pi) = 0.1
   \<and> AvatarMesh defaultSettings defaultLighting 0
       \<noteq> AvatarMesh defaultSettings defaultLighting pi"
  by (simp add: AvatarMesh_def)

text \<open>
  C4, amended. For two settings with equal values in every field, whatever the lighting
  and the clock of the two calls are, the builder gives the same list of shapes
  (geometry, dimensions, positions, colours), the same group scale and the same height
  label; no formula reads randomness. One formula reads state that is not in the
  settings: the rotation of the group about the y axis is \<open>sin (elapsedTime \<times> 0.5) \<times> 0.1\<close>,
  from the clock, and the two scenes are equal exactly when the two clocks give that
  formula the same value. The same holds of \<open>RealisticAvatarMesh\<close>.
\<close>

theorem shapes_depend_on_settings_only:
  assumes "\<forall>k. getSetting s k = getSetting s' k"
  shows "shapes (AvatarMesh s l t) = shapes (AvatarMesh s' l' t')
   \<and> groupScale (AvatarMesh s l t) = groupScale (AvatarMesh s' l' t')
   \<and> heightIndicator (AvatarMesh s l t) = heightIndicator (AvatarMesh s' l' t')
   \<and> groupRotationY (AvatarMesh s l t) = sin (t * 0.5) * 0.1
   \<and> (AvatarMesh s l t = AvatarMesh s' l' t' \<longleftrightarrow> sin (t * 0.5) = sin (t' * 0.5))
   \<and> nodes (RealisticAvatarMesh s l t) = nodes (RealisticAvatarMesh s' l' t')
   \<and> groupScale_R (RealisticAvatarMesh s l t) = groupScale_R (RealisticAvatarMesh s' l' t')
   \<and> heightIndicator_R (RealisticAvatarMesh s l t)
       = heightIndicator_R (RealisticAvatarMesh s' l' t')
   \<and> groupRotationY_R (RealisticAvatarMesh s l t) = sin (t * 0.5) * 0.1
   \<and> (RealisticAvatarMesh s l t = RealisticAvatarMesh s' l' t'
        \<longleftrightarrow> sin (t * 0.5) = sin (t' * 0.5))"
proof -
  have "s = s'" using assms by (rule getSetting_ext)
  then show ?thesis by (simp add: AvatarMesh_def RealisticAvatarMesh_def)
qed

text \<open>
  The default settings, once written by an update of the height to 180 and once as they
  are, with the shadows on at the time 0 and off at the time \<open>\<pi>\<close>: the shapes are the
  same and the scenes differ, since \<open>sin 0 \<noteq> sin (\<pi> / 2)\<close>.
\<close>

theorem shapes_depend_on_settings_only_witness:
  "(\<forall>k. getSetting (updateSetting defaultSettings (Height 180)) k
         = getSetting defaultSettings k)
   \<and> shapes (AvatarMesh (updateSetting defaultSettings (Height 180)) defaultLighting 0)
       = shapes (AvatarMesh defaultSettings (defaultLighting\<lparr>shadows := False\<rparr>) pi)
   \<and> AvatarMesh (updateSetting defaultSettings (Height 180)) defaultLighting 0
       \<noteq> AvatarMesh defaultSettings (defaultLighting\<lparr>shadows := False\<rparr>) pi
   \<and> nodes (RealisticAvatarMesh (updateSetting defaultSettings (Height 180)) defaultLighting 0)
       = nodes (RealisticAvatarMesh defaultSettings (defaultLighting\<lparr>shadows := False\<rparr>) pi)"
proof -
  have a: "\<forall>k. getSetting (updateSetting defaultSettings (Height 180)) k
         = getSetting defaultSettings k"
    by (simp add: defaultSettings_def)
  show ?thesis
    using shapes_depend_on_settings_only [OF a, of defaultLighting 0
        "defaultLighting\<lparr>shadows := False\<rparr>" pi] a
    by simp
qed

lemma groupMeshes_split:
  "groupMeshes s =
     (headPart s @ eyesPart s @ nosePart s @ mouthPart s) @ hairPart s
     @ (neckPart s @ torsoPart s @ chestPart s @ absPart s @ waistPart s @ armsPart s
        @ bicepsPart s @ forearmsPart s @ handsPart s @ legsPart s @ quadsPart s
        @ calvesPart s @ feetPart s)"
  by (simp add: groupMeshes_def)

lemma face_length: "length (headPart s @ eyesPart s @ nosePart s @ mouthPart s) = 5"
  by (simp add: part_defs)

lemma face_hairStyle:
  "headPart (s\<lparr>hairStyle := h\<rparr>) @ eyesPart (s\<lparr>hairStyle := h\<rparr>)
     @ nosePart (s\<lparr>hairStyle := h\<rparr>) @ mouthPart (s\<lparr>hairStyle := h\<rparr>)
   = headPart s @ eyesPart s @ nosePart s @ mouthPart s"
  by (simp add: headPart_def eyesPart_def nosePart_def mouthPart_def scale_defs)

lemma body_hairStyle:
  "neckPart (s\<lparr>hairStyle := h\<rparr>) @ torsoPart (s\<lparr>hairStyle := h\<rparr>)
     @ chestPart (s\<lparr>hairStyle := h\<rparr>) @ absPart (s\<lparr>hairStyle := h\<rparr>)
     @ waistPart (s\<lparr>hairStyle := h\<rparr>) @ armsPart (s\<lparr>hairStyle := h\<rparr>)
     @ bicepsPart (s\<lparr>hairStyle := h\<rparr>) @ forearmsPart (s\<lparr>hairStyle := h\<rparr>)
     @ handsPart (s\<lparr>hairStyle := h\<rparr>) @ legsPart (s\<lparr>hairStyle := h\<rparr>)
     @ quadsPart (s\<lparr>hairStyle := h\<rparr>) @ calvesPart (s\<lparr>hairStyle := h\<rparr>)
     @ feetPart (s\<lparr>hairStyle := h\<rparr>)
   = neckPart s @ torsoPart s @ chestPart s @ absPart s @ waistPart s @ armsPart s
        @ bicepsPart s @ forearmsPart s @ handsPart s @ legsPart s @ quadsPart s
        @ calvesPart s @ feetPart s"
  by (simp add: neckPart_def torsoPart_def chestPart_def absPart_def waistPart_def armsPart_def
      bicepsPart_def forearmsPart_def handsPart_def legsPart_def quadsPart_def calvesPart_def
      feetPart_def scale_defs)

lemma hairPart_none: "hairStyle s \<notin> {1, 2, 3, 4} \<Longrightarrow> hairPart s = []"
  by (simp add: hairPart_def)

lemma hairPart_one:
  "h \<in> {1, 2, 3, 4} \<Longrightarrow>
   \<exists>m. hairPart (s\<lparr>hairStyle := h\<rparr>) = [m] \<and> color m = hairColor_c s"
  by (auto simp: hairPart_def hairColor_c_def hairHue_def)

text \<open>
  The hair colour has saturation 0.8 and lightness 0.3; the skin colour reaches the
  lightness 0.3 only with the saturation 0.2, so the two differ for all settings.
\<close>

lemma no_hair_color:
  "hairStyle s \<notin> {1, 2, 3, 4} \<Longrightarrow> m \<in> set (groupMeshes s) \<Longrightarrow> color m \<noteq> hairColor_c s'"
  apply (simp only: groupMeshes_def set_append Un_iff)
  apply (elim disjE)
  apply (auto simp: part_defs skinColor_def hairColor_c_def skinSaturation_def
      skinLightness_def split: if_splits)
  done

text \<open>
  C9. For settings whose \<open>hairStyle\<close> is none of 1, 2, 3, 4 the builder emits no hair
  shape (the hair part is empty and no shape of the scene has the hair colour), and the
  scene for any hair style \<open>h\<close> among 1, 2, 3, 4 is this same scene with exactly one
  shape, of the hair colour, inserted after the five shapes of the face: every other
  shape is emitted as it is for an in-range hair style.
\<close>

theorem hair_variant_selection:
  assumes "hairStyle s \<notin> {1, 2, 3, 4}" and "h \<in> {1, 2, 3, 4}"
  shows "hairPart s = []
    \<and> (\<forall>m \<in> set (shapes (AvatarMesh s l t)). color m \<noteq> hairColor_c s)
    \<and> (\<exists>m. color m = hairColor_c s
          \<and> hairPart (s\<lparr>hairStyle := h\<rparr>) = [m]
          \<and> shapes (AvatarMesh (s\<lparr>hairStyle := h\<rparr>) l t)
              = take 5 (shapes (AvatarMesh s l t)) @ [m]
                @ drop 5 (shapes (AvatarMesh s l t)))"
proof -
  let ?face = "headPart s @ eyesPart s @ nosePart s @ mouthPart s"
  let ?body = "neckPart s @ torsoPart s @ chestPart s @ absPart s @ waistPart s @ armsPart s
        @ bicepsPart s @ forearmsPart s @ handsPart s @ legsPart s @ quadsPart s
        @ calvesPart s @ feetPart s"
  have none: "hairPart s = []" using assms(1) by (rule hairPart_none)
  have X: "groupMeshes s = ?face @ ?body"
    by (simp only: groupMeshes_split none append_Nil)
  obtain m where m: "hairPart (s\<lparr>hairStyle := h\<rparr>) = [m]" "color m = hairColor_c s"
    using hairPart_one [OF assms(2)] by blast
  have Y: "groupMeshes (s\<lparr>hairStyle := h\<rparr>) = ?face @ [m] @ ?body"
    by (simp only: groupMeshes_split [of "s\<lparr>hairStyle := h\<rparr>"] face_hairStyle
        body_hairStyle m)
  have tk: "take 5 (groupMeshes s) = ?face"
    using face_length [of s] by (simp only: X) simp
  have dr: "drop 5 (groupMeshes s) = ?body"
    using face_length [of s] by (simp only: X) simp
  have "\<forall>m \<in> set (groupMeshes s). color m \<noteq> hairColor_c s"
    using no_hair_color [OF assms(1)] by blast
  with none m Y tk dr show ?thesis
    by (simp only: shapes_AvatarMesh) blast
qed

theorem hair_variant_selection_witness:
  "hairStyle (defaultSettings\<lparr>hairStyle := 7\<rparr>) \<notin> {1, 2, 3, 4}
   \<and> (3 :: real) \<in> {1, 2, 3, 4}
   \<and> length (shapes (AvatarMesh (defaultSettings\<lparr>hairStyle := 7\<rparr>) defaultLighting 0)) = 26
   \<and> length (shapes (AvatarMesh (defaultSettings\<lparr>hairStyle := 3\<rparr>) defaultLighting 0)) = 27
   \<and> map geometry (hairPart (defaultSettings\<lparr>hairStyle := 3\<rparr>))
       = [CylinderGeometry 0.1 0.14 0.2 12]"
proof -
  have a: "hairStyle (defaultSettings\<lparr>hairStyle := 7\<rparr>) \<notin> {1, 2, 3, 4}" by simp
  have b: "(3 :: real) \<in> {1, 2, 3, 4}" by simp
  have c: "length (shapes (AvatarMesh (defaultSettings\<lparr>hairStyle := 7\<rparr>) defaultLighting 0))
      = 26"
    by (simp add: shapes_AvatarMesh groupMeshes_def part_defs defaultSettings_def)
  have d: "map geometry (hairPart (defaultSettings\<lparr>hairStyle := 3\<rparr>))
       = [CylinderGeometry 0.1 0.14 0.2 12]"
    by (simp add: hairPart_def)
  obtain m where m: "shapes (AvatarMesh (defaultSettings\<lparr>hairStyle := 3\<rparr>) defaultLighting 0)
      = take 5 (shapes (AvatarMesh (defaultSettings\<lparr>hairStyle := 7\<rparr>) defaultLighting 0)) @ [m]
        @ drop 5 (shapes (AvatarMesh (defaultSettings\<lparr>hairStyle := 7\<rparr>) defaultLighting 0))"
    using hair_variant_selection [OF a b, of defaultLighting 0] by auto
  have "length (shapes (AvatarMesh (defaultSettings\<lparr>hairStyle := 3\<rparr>) defaultLighting 0)) = 27"
    using c by (simp add: m)
  with a b c d show ?thesis by blast
qed

text \<open>
  C7. The 2D fallback computes \<open>heightScale\<close> and \<open>muscleScale\<close> by the formulas of
  the 3D builder, \<open>height / 180\<close> and \<open>1 + (muscle - 50) \<times> 0.004\<close>; the height of its
  container is 120 times the scale of the 3D group, and the width of its arms is
  8 plus twice the muscle scale of the 3D builder.
\<close>

theorem fallback_scales_agree:
  "heightScale_2D s = heightScale s
   \<and> muscleScale_2D s = muscleScale s
   \<and> heightScale s = height s / 180
   \<and> muscleScale s = 1 + (muscle s - 50) * 0.004
   \<and> height_px (container (Avatar2DFallback s)) = 120 * fst (groupScale (AvatarMesh s l t))
   \<and> width_px (parts (Avatar2DFallback s) ! 2) = 8 + muscleScale s * 2"
  by (simp add: heightScale_2D_def heightScale_def muscleScale_2D_def muscleScale_def
      Avatar2DFallback_def AvatarMesh_def)

theorem fallback_scales_agree_witness:
  "heightScale_2D defaultSettings = 1 \<and> heightScale defaultSettings = 1
   \<and> muscleScale_2D (defaultSettings\<lparr>muscle := 100\<rparr>) = 1.2
   \<and> muscleScale (defaultSettings\<lparr>muscle := 100\<rparr>) = 1.2"
  using fallback_scales_agree [of defaultSettings defaultLighting 0]
    fallback_scales_agree [of "defaultSettings\<lparr>muscle := 100\<rparr>" defaultLighting 0]
  by (simp add: defaultSettings_def)

section \<open>Properties of the mesh of the mounted component\<close>













section \<open>Properties of the procedural texture\<close>

lemma texturePixel_bounds:
  "0 \<le> red (texturePixel s tu r j) \<and> red (texturePixel s tu r j) \<le> 255
   \<and> 0 \<le> green (texturePixel s tu r j) \<and> green (texturePixel s tu r j) \<le> 255
   \<and> 0 \<le> blue (texturePixel s tu r j) \<and> blue (texturePixel s tu r j) \<le> 255
   \<and> alpha (texturePixel s tu r j) = 255"
  by (simp add: texturePixel_def Let_def)

text \<open>
  C5. For all settings, all tuning values and every sequence of random numbers, the
  image data has \<open>textureQuality \<times> textureQuality\<close> pixels, each with red, green and
  blue in \<open>[0, 255]\<close> and alpha 255; and the vascular detail is 0 at every coordinate
  whenever \<open>muscle \<le> 60\<close> or \<open>bodyFat \<ge> 15\<close>. The random number enters the noise only,
  so the vascular detail does not depend on it.
\<close>

theorem texture_channels_bounded:
  "length (generateEnhancedTexture s tu rnd) = textureQuality tu * textureQuality tu
   \<and> (\<forall>p \<in> set (generateEnhancedTexture s tu rnd).
        0 \<le> red p \<and> red p \<le> 255 \<and> 0 \<le> green p \<and> green p \<le> 255
        \<and> 0 \<le> blue p \<and> blue p \<le> 255 \<and> alpha p = 255)
   \<and> (muscle s \<le> 60 \<or> bodyFat s \<ge> 15 \<longrightarrow> (\<forall>nx ny. vascularDetail s tu nx ny = 0))"
proof (intro conjI)
  show "length (generateEnhancedTexture s tu rnd) = textureQuality tu * textureQuality tu"
    by (simp add: generateEnhancedTexture_def)
  show "\<forall>p \<in> set (generateEnhancedTexture s tu rnd).
        0 \<le> red p \<and> red p \<le> 255 \<and> 0 \<le> green p \<and> green p \<le> 255
        \<and> 0 \<le> blue p \<and> blue p \<le> 255 \<and> alpha p = 255"
    using texturePixel_bounds [of s tu] by (auto simp: generateEnhancedTexture_def)
  show "muscle s \<le> 60 \<or> bodyFat s \<ge> 15 \<longrightarrow> (\<forall>nx ny. vascularDetail s tu nx ny = 0)"
    by (auto simp: vascularDetail_def)
qed

text \<open>
  A texture of one pixel for the default settings, with the random number 0.25: the base
  red 215, the noise -3.5 and the fat softening 2 give 213.5.
\<close>

theorem texture_channels_bounded_witness:
  "(let tu = defaultTuning\<lparr>textureQuality := 1\<rparr>;
        p = texturePixel defaultSettings tu 0.25 0
    in generateEnhancedTexture defaultSettings tu (\<lambda>j. 0.25) = [p]
       \<and> red p = 213.5 \<and> 0 \<le> red p \<and> red p \<le> 255 \<and> alpha p = 255)
   \<and> muscle defaultSettings \<le> 60
   \<and> vascularDetail defaultSettings defaultTuning 0.5 0.5 = 0"
proof -
  have a: "red (texturePixel defaultSettings (defaultTuning\<lparr>textureQuality := 1\<rparr>) 0.25 0)
      = 213.5"
    by (simp add: texturePixel_def Let_def defaultSettings_def defaultTuning_def hslToRgb_def
        skinHue_tex_def skinSat_def skinLight_def jsRound_def noise_def muscleDefinition_def
        vascularDetail_def fatSoftening_def)
  have b: "generateEnhancedTexture defaultSettings (defaultTuning\<lparr>textureQuality := 1\<rparr>)
      (\<lambda>j. 0.25)
      = [texturePixel defaultSettings (defaultTuning\<lparr>textureQuality := 1\<rparr>) 0.25 0]"
    by (simp add: generateEnhancedTexture_def)
  have c: "muscle defaultSettings \<le> 60" by (simp add: defaultSettings_def)
  show ?thesis
    using texture_channels_bounded
        [of defaultSettings "defaultTuning\<lparr>textureQuality := 1\<rparr>" "\<lambda>j. 0.25"]
      texture_channels_bounded [of defaultSettings defaultTuning] a b c
    by (simp add: Let_def)
qed

text \<open>
  C10. Inside the gate \<open>muscle > 30\<close> the three region assignments overwrite one
  another: the value of \<open>muscleDefinition\<close> is the coefficient of the last region that
  contains the pixel (arms 20, else abs 25, else chest 30, else 0), never a sum. For a
  pixel in both the chest and the abs region it is the abs coefficient, factor 25. The
  arms region is disjoint from the chest region and from the abs region.
\<close>

theorem muscle_regions_overwrite:
  "muscleDefinition s tu nx ny =
     (let c = (muscle s / 100) * (muscleIntensity tu / 100);
          chestRegion = (ny > 0.3 \<and> ny < 0.6 \<and> \<bar>nx - 0.5\<bar> < 0.2);
          absRegion = (ny > 0.5 \<and> ny < 0.8 \<and> \<bar>nx - 0.5\<bar> < 0.15);
          armsRegion = ((nx < 0.2 \<or> nx > 0.8) \<and> ny > 0.2 \<and> ny < 0.7)
      in if muscle s > 30 then
           (if armsRegion then c * 20
            else if absRegion then c * 25
            else if chestRegion then c * 30
            else 0)
         else 0)
   \<and> (muscle s > 30
        \<and> (ny > 0.3 \<and> ny < 0.6 \<and> \<bar>nx - 0.5\<bar> < 0.2)
        \<and> (ny > 0.5 \<and> ny < 0.8 \<and> \<bar>nx - 0.5\<bar> < 0.15)
      \<longrightarrow> muscleDefinition s tu nx ny = (muscle s / 100) * (muscleIntensity tu / 100) * 25)
   \<and> \<not> (((nx < 0.2 \<or> nx > 0.8) \<and> ny > 0.2 \<and> ny < 0.7)
          \<and> (ny > 0.3 \<and> ny < 0.6 \<and> \<bar>nx - 0.5\<bar> < 0.2))
   \<and> \<not> (((nx < 0.2 \<or> nx > 0.8) \<and> ny > 0.2 \<and> ny < 0.7)
          \<and> (ny > 0.5 \<and> ny < 0.8 \<and> \<bar>nx - 0.5\<bar> < 0.15))"
  by (auto simp: muscleDefinition_def Let_def)

text \<open>
  The pixel \<open>(10, 11)\<close> of a texture of 20 by 20 pixels has the coordinates
  \<open>(0.5, 0.55)\<close>, in both the chest and the abs region: for the default settings and
  tuning its darkening is \<open>0.5 \<times> 0.5 \<times> 25 = 6.25\<close>, not 7.5 and not 13.75.
\<close>

theorem muscle_regions_overwrite_witness:
  "muscle defaultSettings > 30
   \<and> real (230 mod 20) / 20 = 0.5 \<and> real (230 div 20) / 20 = 0.55
   \<and> ((0.55 :: real) > 0.3 \<and> (0.55 :: real) < 0.6 \<and> \<bar>(0.5 :: real) - 0.5\<bar> < 0.2)
   \<and> ((0.55 :: real) > 0.5 \<and> (0.55 :: real) < 0.8 \<and> \<bar>(0.5 :: real) - 0.5\<bar> < 0.15)
   \<and> muscleDefinition defaultSettings defaultTuning 0.5 0.55 = 6.25"
proof -
  have a: "muscle defaultSettings > 30" by (simp add: defaultSettings_def)
  have b: "(muscle defaultSettings / 100) * (muscleIntensity defaultTuning / 100) * 25 = 6.25"
    by (simp add: defaultSettings_def defaultTuning_def)
  have c: "real (230 mod 20) / 20 = 0.5 \<and> real (230 div 20) / 20 = 0.55" by simp
  show ?thesis
    using muscle_regions_overwrite [of defaultSettings defaultTuning "0.5" "0.55"] a b c
    by simp
qed

section \<open>Properties of the file validation\<close>

text \<open>
  C8 as stated fails: the name is lower-cased before the test of the extension, so a
  file named \<open>A.GLB\<close>, whose name does not end with \<open>.glb\<close>, is accepted.
\<close>

theorem uppercase_extension_accepted:
  "\<not> endsWith ''A.GLB'' ''.glb''
   \<and> validateFile \<lparr>file_name = ''A.GLB'', file_size = 1\<rparr> = None
   \<and> handleFileSelect emptyUploader \<lparr>file_name = ''A.GLB'', file_size = 1\<rparr>
       = (emptyUploader\<lparr>selectedFile := Some \<lparr>file_name = ''A.GLB'', file_size = 1\<rparr>\<rparr>, None)"
  by (simp add: validateFile_def handleFileSelect_def endsWith_def toLowerCase_def lowerChar_def
      MAX_FILE_SIZE_def)

text \<open>
  C8, amended. The validation accepts a file (returns no error) iff its name, in lower
  case, ends with \<open>.glb\<close> and its size is at most \<open>30 \<times> 1024 \<times> 1024\<close> bytes, a file of
  exactly that size being accepted. For any other file it returns a non-empty error
  message, which \<open>handleFileSelect\<close> shows; the state of the component stays as it was,
  the file is not selected, and whether an upload can start is as before. An accepted
  file becomes the selected file.
\<close>

theorem validateFile_accepts_iff:
  "(validateFile f = None \<longleftrightarrow>
      endsWith (toLowerCase (file_name f)) ''.glb'' \<and> file_size f \<le> 30 * 1024 * 1024)
   \<and> (validateFile f \<noteq> None \<longrightarrow>
        (\<exists>e. e \<noteq> [] \<and> validateFile f = Some e \<and> handleFileSelect st f = (st, Some e))
        \<and> uploadModel_start (fst (handleFileSelect st f)) = uploadModel_start st)
   \<and> (validateFile f = None \<longrightarrow>
        handleFileSelect st f = (st\<lparr>selectedFile := Some f\<rparr>, None))"
  by (auto simp: validateFile_def handleFileSelect_def MAX_FILE_SIZE_def)

theorem validateFile_accepts_iff_witness:
  "validateFile \<lparr>file_name = ''avatar.glb'', file_size = 31457280\<rparr> = None
   \<and> handleFileSelect emptyUploader \<lparr>file_name = ''avatar.glb'', file_size = 31457281\<rparr>
       = (emptyUploader, Some ''File size must be less than 30MB'')
   \<and> uploadModel_start
        (fst (handleFileSelect emptyUploader \<lparr>file_name = ''avatar.glb'', file_size = 31457281\<rparr>))
       = None
   \<and> handleFileSelect emptyUploader \<lparr>file_name = ''avatar.png'', file_size = 10\<rparr>
       = (emptyUploader, Some ''Only .glb files are supported'')"
  using validateFile_accepts_iff
      [of "\<lparr>file_name = ''avatar.glb'', file_size = 31457280\<rparr>" emptyUploader]
    validateFile_accepts_iff
      [of "\<lparr>file_name = ''avatar.glb'', file_size = 31457281\<rparr>" emptyUploader]
    validateFile_accepts_iff
      [of "\<lparr>file_name = ''avatar.png'', file_size = 10\<rparr>" emptyUploader]
  by (simp add: validateFile_def endsWith_def toLowerCase_def lowerChar_def MAX_FILE_SIZE_def
      emptyUploader_def uploadModel_start_def handleFileSelect_def digit_def)

end
